theory Spec2Isabelle
  imports Complex_Main
begin

section \<open>Errors and small string helpers\<close>

text \<open>
  Every exception the modelled Python can raise is a value.  \<open>BareRaise\<close> is the
  statement \<^verbatim>\<open>raise\<close> executed with no active exception (\<^verbatim>\<open>SE.add_dtable\<close>,
  \<^verbatim>\<open>SE.add_dvar\<close>); \<open>AxisError\<close> and \<open>ShapeError\<close> are numpy's complaints about
  an axis that does not exist and about shapes that cannot be broadcast.
\<close>

datatype error =
    ValueError string
  | BareRaise
  | AttributeError string
  | KeyError string
  | IndexError
  | TypeError string
  | NotImplementedError string
  | AssertionError string
  | AxisError
  | ShapeError

text \<open>\<^verbatim>\<open>str(n)\<close> for a Python integer, \<^verbatim>\<open>s.rjust(w, c)\<close> and \<^verbatim>\<open>s.lower()\<close>.\<close>

definition digit_char :: "nat \<Rightarrow> char" where
  "digit_char d = ''0123456789'' ! d"

function str_nat :: "nat \<Rightarrow> string" where
  "str_nat n = (if n < 10 then [digit_char n] else str_nat (n div 10) @ [digit_char (n mod 10)])"
  by pat_completeness auto
termination
  by (relation "measure id") auto

definition str_int :: "int \<Rightarrow> string" where
  "str_int i = (if i < 0 then CHR ''-'' # str_nat (nat (- i)) else str_nat (nat i))"

definition rjust :: "nat \<Rightarrow> char \<Rightarrow> string \<Rightarrow> string" where
  "rjust w c s = replicate (w - length s) c @ s"

definition lower_char :: "char \<Rightarrow> char" where
  "lower_char c =
     (case map_of (zip ''ABCDEFGHIJKLMNOPQRSTUVWXYZ'' ''abcdefghijklmnopqrstuvwxyz'') c of
        None \<Rightarrow> c
      | Some d \<Rightarrow> d)"

definition lower :: "string \<Rightarrow> string" where
  "lower s = map lower_char s"

section \<open>Optimization cards (cards\_opt.py)\<close>

subsection \<open>The class attributes \<^verbatim>\<open>uniqueid\<close>\<close>

text \<open>
  Each card class owns a class attribute \<^verbatim>\<open>uniqueid = 8000000\<close>; its \<^verbatim>\<open>__init__\<close>
  runs \<^verbatim>\<open>self.id = K.uniqueid; K.uniqueid += 1\<close>.  The attributes of all classes
  together are a function from the class to its counter (Python integers are unbounded:
  \<open>int\<close>).  \<^verbatim>\<open>DCONSTR\<close> has no such attribute and no \<^verbatim>\<open>id\<close>.
  \<^verbatim>\<open>DVPREL2\<close> is imported by ses.py but its class is not part of the sources; its
  counter is assumed to follow the pattern of its sibling \<^verbatim>\<open>DVPREL1\<close>.
\<close>

datatype kind =
  KDRESP1 | KDRESP2 | KDRESP3 | KDESVAR | KDVPREL1 | KDVPREL2 | KDLINK | KDEQATN | KDTABLE

type_synonym counters = "kind \<Rightarrow> int"

definition initial_uniqueid :: counters where
  "initial_uniqueid = (\<lambda>k. 8000000)"

definition take_uniqueid :: "kind \<Rightarrow> counters \<Rightarrow> int \<times> counters" where
  "take_uniqueid k c = (c k, c(k := c k + 1))"

text \<open>
  A run of constructor calls in one process, recorded as the class constructed and the
  \<^verbatim>\<open>id\<close> its object received.
\<close>

fun allocations :: "kind list \<Rightarrow> counters \<Rightarrow> (kind \<times> int) list" where
  "allocations [] c = []"
| "allocations (k # ks) c =
     (case take_uniqueid k c of (i, c') \<Rightarrow> (k, i) # allocations ks c')"

definition ids_of_kind :: "kind \<Rightarrow> (kind \<times> int) list \<Rightarrow> int list" where
  "ids_of_kind k ps = map snd (filter (\<lambda>p. fst p = k) ps)"

subsection \<open>The cards\<close>

text \<open>
  A field that the constructors default to the empty string (a blank field of the card)
  is an option: \<open>None\<close> is \<^verbatim>\<open>''\<close>.
\<close>

record DRESP1 =
  r1_id :: int
  r1_label :: string
  r1_rtype :: string
  r1_ptype :: string
  r1_region :: "int option"
  r1_atta :: "int option"
  r1_attb :: "int option"
  r1_atti :: "int option"

definition DRESP1_init ::
  "string \<Rightarrow> string \<Rightarrow> string \<Rightarrow> int option \<Rightarrow> int option \<Rightarrow> int option \<Rightarrow> int option
     \<Rightarrow> counters \<Rightarrow> DRESP1 \<times> counters" where
  "DRESP1_init label rtype ptype region atta attb atti c =
     (case take_uniqueid KDRESP1 c of (i, c') \<Rightarrow>
        (\<lparr>r1_id = i, r1_label = label, r1_rtype = rtype, r1_ptype = ptype,
          r1_region = region, r1_atta = atta, r1_attb = attb, r1_atti = atti\<rparr>, c'))"

record DRESP2 =
  r2_id :: int
  r2_label :: string
  r2_eqid :: int
  r2_region :: "int option"
  r2_dvars :: "int list"
  r2_dtable :: "string list"
  r2_dresp1 :: "int list"

definition DRESP2_init :: "string \<Rightarrow> int \<Rightarrow> int option \<Rightarrow> counters \<Rightarrow> DRESP2 \<times> counters" where
  "DRESP2_init label eqid region c =
     (case take_uniqueid KDRESP2 c of (i, c') \<Rightarrow>
        (\<lparr>r2_id = i, r2_label = label, r2_eqid = eqid, r2_region = region,
          r2_dvars = [], r2_dtable = [], r2_dresp1 = []\<rparr>, c'))"

record DRESP3 =
  r3_id :: int
  r3_label :: string
  r3_group :: string
  r3_type :: string
  r3_region :: "int option"
  r3_dvars :: "int list"
  r3_dtable :: "string list"
  r3_dresp1 :: "int list"

definition DRESP3_init ::
  "string \<Rightarrow> string \<Rightarrow> string \<Rightarrow> int option \<Rightarrow> counters \<Rightarrow> DRESP3 \<times> counters" where
  "DRESP3_init label grp typ region c =
     (case take_uniqueid KDRESP3 c of (i, c') \<Rightarrow>
        (\<lparr>r3_id = i, r3_label = label, r3_group = grp, r3_type = typ, r3_region = region,
          r3_dvars = [], r3_dtable = [], r3_dresp1 = []\<rparr>, c'))"

datatype response = Resp1 DRESP1 | Resp2 DRESP2 | Resp3 DRESP3

fun resp_id :: "response \<Rightarrow> int" where
  "resp_id (Resp1 r) = r1_id r"
| "resp_id (Resp2 r) = r2_id r"
| "resp_id (Resp3 r) = r3_id r"

fun resp_kind :: "response \<Rightarrow> kind" where
  "resp_kind (Resp1 r) = KDRESP1"
| "resp_kind (Resp2 r) = KDRESP2"
| "resp_kind (Resp3 r) = KDRESP3"

record DESVAR =
  dv_id :: int
  dv_label :: string
  dv_xinit :: real
  dv_xlb :: real
  dv_xub :: real
  dv_delx :: "real option"
  dv_ddval :: "int option"
  dv_code :: "string option"

definition DESVAR_init ::
  "string \<Rightarrow> real \<Rightarrow> real \<Rightarrow> real \<Rightarrow> counters \<Rightarrow> DESVAR \<times> counters" where
  "DESVAR_init label xinit xlb xub c =
     (case take_uniqueid KDESVAR c of (i, c') \<Rightarrow>
        (\<lparr>dv_id = i, dv_label = label, dv_xinit = xinit, dv_xlb = xlb, dv_xub = xub,
          dv_delx = None, dv_ddval = None, dv_code = None\<rparr>, c'))"

record DEQATN =
  eq_id :: int
  eq_text :: string

definition DEQATN_init :: "string \<Rightarrow> counters \<Rightarrow> DEQATN \<times> counters" where
  "DEQATN_init eq c =
     (case take_uniqueid KDEQATN c of (i, c') \<Rightarrow> (\<lparr>eq_id = i, eq_text = eq\<rparr>, c'))"

record DVPREL1 =
  p1_id :: int
  p1_type :: string
  p1_pid :: int
  p1_pname :: string
  p1_dvids :: "int list"
  p1_coefs :: "real list"
  p1_c0 :: real

text \<open>
  \<^verbatim>\<open>DVPREL1.__init__\<close> and \<^verbatim>\<open>DLINK.__init__\<close> take their identifier first and
  check their arguments last, with \<^verbatim>\<open>assert\<close>: a failed construction has consumed an
  identifier and yields no object.
\<close>

definition DVPREL1_init ::
  "string \<Rightarrow> int \<Rightarrow> string \<Rightarrow> int list \<Rightarrow> real list \<Rightarrow> real \<Rightarrow> counters
     \<Rightarrow> (error + DVPREL1) \<times> counters" where
  "DVPREL1_init typ pid pname dvids coefs c0 c =
     (case take_uniqueid KDVPREL1 c of (i, c') \<Rightarrow>
        (if length dvids \<noteq> length coefs then Inl (AssertionError ''Lengths must be the same'')
         else if \<not> length dvids > 0 then
           Inl (AssertionError ''At least one variable must be related'')
         else Inr \<lparr>p1_id = i, p1_type = typ, p1_pid = pid, p1_pname = pname,
                    p1_dvids = dvids, p1_coefs = coefs, p1_c0 = c0\<rparr>, c'))"

text \<open>
  Modelled from the spec: the class \<^verbatim>\<open>DVPREL2\<close> (the equation form of a property
  relation) is used by \<^verbatim>\<open>Flange1D.create_dvars\<close> but is missing from the sources.  The
  spec describes it as a reference to an Equation plus an ordered list of DesignVariable
  identifiers and ConstantTable names; \<^verbatim>\<open>add_dvar\<close> and \<^verbatim>\<open>add_dtable\<close> append.
\<close>

record DVPREL2 =
  p2_id :: int
  p2_type :: string
  p2_pid :: int
  p2_pname :: string
  p2_eqid :: int
  p2_dvars :: "int list"
  p2_dtable :: "string list"

definition DVPREL2_init ::
  "string \<Rightarrow> int \<Rightarrow> string \<Rightarrow> int \<Rightarrow> counters \<Rightarrow> DVPREL2 \<times> counters" where
  "DVPREL2_init typ pid pname eqid c =
     (case take_uniqueid KDVPREL2 c of (i, c') \<Rightarrow>
        (\<lparr>p2_id = i, p2_type = typ, p2_pid = pid, p2_pname = pname, p2_eqid = eqid,
          p2_dvars = [], p2_dtable = []\<rparr>, c'))"

datatype dvprel = Rel1 DVPREL1 | Rel2 DVPREL2

fun dvprel_id :: "dvprel \<Rightarrow> int" where
  "dvprel_id (Rel1 p) = p1_id p"
| "dvprel_id (Rel2 p) = p2_id p"

record DCONSTR =
  dc_dcid :: int
  dc_rid :: int
  dc_lallow :: "real option"
  dc_uallow :: "real option"

definition DCONSTR_init :: "int \<Rightarrow> int \<Rightarrow> real option \<Rightarrow> real option \<Rightarrow> DCONSTR" where
  "DCONSTR_init dcid rid lallow uallow =
     \<lparr>dc_dcid = dcid, dc_rid = rid, dc_lallow = lallow, dc_uallow = uallow\<rparr>"

record DLINK =
  dl_id :: int
  dl_ddvid :: int
  dl_c0 :: real
  dl_cmult :: real
  dl_idvs :: "int list"
  dl_cs :: "real list"

definition DLINK_init ::
  "int \<Rightarrow> int list \<Rightarrow> real list \<Rightarrow> real \<Rightarrow> real \<Rightarrow> counters \<Rightarrow> (error + DLINK) \<times> counters" where
  "DLINK_init ddvid idvs cs c0 cmult c =
     (case take_uniqueid KDLINK c of (i, c') \<Rightarrow>
        (if length idvs \<noteq> length cs then Inl (AssertionError ''Lengths must be the same'')
         else if \<not> length idvs > 0 then
           Inl (AssertionError ''At least one independent variable required'')
         else Inr \<lparr>dl_id = i, dl_ddvid = ddvid, dl_c0 = c0, dl_cmult = cmult,
                    dl_idvs = idvs, dl_cs = cs\<rparr>, c'))"

section \<open>Structural elements (ses.py)\<close>

subsection \<open>The optimization model and the element\<close>

text \<open>
  Modelled from the spec: the class of \<^verbatim>\<open>self.model.optmodel\<close> is missing from the
  sources.  The spec describes the model as mappings from constant name to value and from
  identifier to Response, DesignVariable, PropertyRelation, Constraint and Equation;
  ses.py reads and writes them as the dictionaries \<^verbatim>\<open>dtables\<close>,
  \<^verbatim>\<open>dtable_prefixes\<close> (constant name to collision counter), \<^verbatim>\<open>dresps\<close>,
  \<^verbatim>\<open>deqatns\<close>, \<^verbatim>\<open>dvars\<close>, \<^verbatim>\<open>dvprels\<close> and \<^verbatim>\<open>dconstrs\<close>.  The three
  response classes share \<^verbatim>\<open>dresps\<close>.
\<close>

record optmodel =
  om_dtables :: "string \<rightharpoonup> real"
  om_dtable_prefixes :: "string \<rightharpoonup> int"
  om_dresps :: "int \<rightharpoonup> response"
  om_deqatns :: "int \<rightharpoonup> DEQATN"
  om_dvars :: "int \<rightharpoonup> DESVAR"
  om_dvprels :: "int \<rightharpoonup> dvprel"
  om_dconstrs :: "int \<rightharpoonup> DCONSTR"

definition empty_optmodel :: optmodel where
  "empty_optmodel =
     \<lparr>om_dtables = Map.empty, om_dtable_prefixes = Map.empty, om_dresps = Map.empty,
      om_deqatns = Map.empty, om_dvars = Map.empty, om_dvprels = Map.empty,
      om_dconstrs = Map.empty\<rparr>"

text \<open>
  Modelled from the spec: the class of a resolved finite element is missing from the
  sources.  The spec's geometry source exposes a node-position query, an element-type tag
  and the property entry's identifier and type tag; ses.py reads them as \<^verbatim>\<open>e.eid\<close>,
  \<^verbatim>\<open>e.type\<close>, \<^verbatim>\<open>e.pid.pid\<close>, \<^verbatim>\<open>e.pid.type\<close> and \<^verbatim>\<open>e.get_node_positions()\<close>
  (one row of three coordinates per node).  Coordinates are reals: the model computes
  exactly where numpy computes in floating point.
\<close>

type_synonym vec3 = "real \<times> real \<times> real"

record element =
  el_eid :: int
  el_type :: string
  el_pid :: int
  el_ptype :: string
  node_positions :: "vec3 list"

text \<open>
  The classes of ses.py that the claims reach.  \<^verbatim>\<open>create_dvars\<close> and
  \<^verbatim>\<open>constrain_buckling\<close> are methods of \<^verbatim>\<open>Flange1D\<close> and its subclasses only.
\<close>

datatype se_class = SE1D | ShearClipSkin | Flange1D | InnerFlange | OuterFlange

fun class_name :: "se_class \<Rightarrow> string" where
  "class_name SE1D = ''SE1D''"
| "class_name ShearClipSkin = ''ShearClipSkin''"
| "class_name Flange1D = ''Flange1D''"
| "class_name InnerFlange = ''InnerFlange''"
| "class_name OuterFlange = ''OuterFlange''"

fun is_flange :: "se_class \<Rightarrow> bool" where
  "is_flange SE1D = False"
| "is_flange ShearClipSkin = False"
| "is_flange Flange1D = True"
| "is_flange InnerFlange = True"
| "is_flange OuterFlange = True"

text \<open>
  The instance attributes.  \<open>se_elements = None\<close> is \<^verbatim>\<open>self.elements is None\<close>
  (geometry not resolved).  \<^verbatim>\<open>profile\<close>, \<^verbatim>\<open>t\<close>, \<^verbatim>\<open>t_lb\<close>, ... are never set by
  a constructor: the caller assigns them; \<open>profile = None\<close> is the attribute missing,
  and the dimensions are taken to be assigned together with it.
\<close>

record SE =
  se_class :: se_class
  se_name :: string
  se_eids :: "int list"
  se_elements :: "element list option"
  se_dresps :: "response list"
  se_dvars :: "string \<rightharpoonup> DESVAR"
  se_dvprels :: "dvprel list"
  se_deqatns :: "DEQATN list"
  se_dtables :: "string \<rightharpoonup> string \<times> real"
  se_dlinks :: "DLINK list"
  se_dconstrs :: "DCONSTR list"
  se_all_constraints :: "string list"
  se_constraints :: "string \<rightharpoonup> int"
  dvars_created :: bool
  profile :: "string option"
  se_t :: real
  t_lb :: real
  t_ub :: real
  se_b :: real
  b_lb :: real
  b_ub :: real

text \<open>
  \<^verbatim>\<open>SE1D.__init__\<close> (through \<^verbatim>\<open>SE.__init__\<close>), also run by the flange classes.
\<close>

definition SE1D_init :: "se_class \<Rightarrow> string \<Rightarrow> int list \<Rightarrow> SE" where
  "SE1D_init cls name eids =
     \<lparr>se_class = cls, se_name = name, se_eids = eids, se_elements = None,
      se_dresps = [], se_dvars = Map.empty, se_dvprels = [], se_deqatns = [],
      se_dtables = Map.empty, se_dlinks = [], se_dconstrs = [],
      se_all_constraints = [''stress_tension'', ''stress_compression''],
      se_constraints = [''stress_tension'' \<mapsto> 1, ''stress_compression'' \<mapsto> 1],
      dvars_created = False, profile = None,
      se_t = 0, t_lb = 0, t_ub = 0, se_b = 0, b_lb = 0, b_ub = 0\<rparr>"

text \<open>
  The mutable state a method of an element touches: the element itself, the class
  attributes \<^verbatim>\<open>uniqueid\<close>, and the optimization model the element is attached to
  (\<^verbatim>\<open>self.model.optmodel\<close>; the element is taken to be attached).  A method returns its
  result or the exception it raised, together with the state as the exception left it.
\<close>

record state =
  self :: SE
  uniqueid :: counters
  optmodel :: optmodel

type_synonym 'a effect = "state \<Rightarrow> (error + 'a) \<times> state"

definition initial_state :: "SE \<Rightarrow> state" where
  "initial_state se = \<lparr>self = se, uniqueid = initial_uniqueid, optmodel = empty_optmodel\<rparr>"

definition bind_method :: "'a effect \<Rightarrow> ('a \<Rightarrow> 'b effect) \<Rightarrow> 'b effect" where
  "bind_method m f s = (case m s of (Inl e, s') \<Rightarrow> (Inl e, s') | (Inr x, s') \<Rightarrow> f x s')"

subsection \<open>Contributing entities\<close>

definition add_dtable_store :: "string \<Rightarrow> string \<Rightarrow> real \<Rightarrow> string effect" where
  "add_dtable_store origkey key v s =
     (if se_dtables (self s) origkey \<noteq> None then (Inl BareRaise, s)
      else (Inr key,
            s\<lparr>self := (self s)\<lparr>se_dtables := (se_dtables (self s))(origkey \<mapsto> (key, v))\<rparr>,
              optmodel := (optmodel s)\<lparr>om_dtables := (om_dtables (optmodel s))(key \<mapsto> v)\<rparr>\<rparr>))"

text \<open>
  \<^verbatim>\<open>SE.add_dtable\<close>.  \<open>add_dtable_store\<close> is its tail, from
  \<^verbatim>\<open>if origkey in self.dtables.keys()\<close> on.  The collision counter is written before
  the length of the suffixed key is checked, as in the source.
\<close>

definition add_dtable :: "string \<Rightarrow> real \<Rightarrow> string effect" where
  "add_dtable key v s =
     (if om_dtables (optmodel s) key \<noteq> None then
        (if length key \<ge> 8 then
           (Inl (ValueError (key @ '' is an already existing DTABLE entry!'')), s)
         else
           (let n = (case om_dtable_prefixes (optmodel s) key of
                       Some c \<Rightarrow> c + 1
                     | None \<Rightarrow> 0);
                s1 = s\<lparr>optmodel := (optmodel s)
                       \<lparr>om_dtable_prefixes := (om_dtable_prefixes (optmodel s))(key \<mapsto> n)\<rparr>\<rparr>;
                sufix = str_int n;
                key1 = key @ rjust (8 - length key) CHR ''0'' sufix
            in if length key1 > 8 then (Inl (ValueError ''Use a smaller key''), s1)
               else add_dtable_store key key1 v s1))
      else add_dtable_store key key v s)"

definition add_dresp :: "response \<Rightarrow> state \<Rightarrow> state" where
  "add_dresp dresp s =
     s\<lparr>self := (self s)\<lparr>se_dresps := se_dresps (self s) @ [dresp]\<rparr>,
       optmodel := (optmodel s)\<lparr>om_dresps := (om_dresps (optmodel s))(resp_id dresp \<mapsto> dresp)\<rparr>\<rparr>"

definition add_deqatn :: "DEQATN \<Rightarrow> state \<Rightarrow> state" where
  "add_deqatn deqatn s =
     s\<lparr>self := (self s)\<lparr>se_deqatns := se_deqatns (self s) @ [deqatn]\<rparr>,
       optmodel := (optmodel s)\<lparr>om_deqatns := (om_deqatns (optmodel s))(eq_id deqatn \<mapsto> deqatn)\<rparr>\<rparr>"

definition add_dvar :: "DESVAR \<Rightarrow> unit effect" where
  "add_dvar dvar s =
     (if se_dvars (self s) (dv_label dvar) \<noteq> None then (Inl BareRaise, s)
      else (Inr (),
            s\<lparr>self := (self s)\<lparr>se_dvars := (se_dvars (self s))(dv_label dvar \<mapsto> dvar)\<rparr>,
              optmodel := (optmodel s)\<lparr>om_dvars := (om_dvars (optmodel s))(dv_id dvar \<mapsto> dvar)\<rparr>\<rparr>))"

definition add_dvprel :: "dvprel \<Rightarrow> state \<Rightarrow> state" where
  "add_dvprel dvprel s =
     s\<lparr>self := (self s)\<lparr>se_dvprels := se_dvprels (self s) @ [dvprel]\<rparr>,
       optmodel := (optmodel s)\<lparr>om_dvprels := (om_dvprels (optmodel s))(dvprel_id dvprel \<mapsto> dvprel)\<rparr>\<rparr>"

text \<open>
  \<^verbatim>\<open>SE.add_constraint\<close> builds the \<^verbatim>\<open>DCONSTR\<close>, appends it to the element's own
  list and then evaluates \<^verbatim>\<open>dconstr.id\<close> for the key of \<^verbatim>\<open>optmodel.dconstrs\<close>.
  \<^verbatim>\<open>DCONSTR.__init__\<close> sets \<^verbatim>\<open>dcid\<close>, \<^verbatim>\<open>rid\<close>, \<^verbatim>\<open>lallow\<close> and \<^verbatim>\<open>uallow\<close> only and
  the class has no \<^verbatim>\<open>uniqueid\<close>, so the attribute lookup raises and the model's
  dictionary is never written.
\<close>

definition add_constraint :: "int \<Rightarrow> response \<Rightarrow> real option \<Rightarrow> real option \<Rightarrow> unit effect" where
  "add_constraint dcid dresp lb ub s =
     (let dconstr = DCONSTR_init dcid (resp_id dresp) lb ub;
          s1 = s\<lparr>self := (self s)\<lparr>se_dconstrs := se_dconstrs (self s) @ [dconstr]\<rparr>\<rparr>
      in (Inl (AttributeError ''DCONSTR object has no attribute id''), s1))"

subsection \<open>The central element\<close>

text \<open>
  \<^verbatim>\<open>x.mean(axis=0)\<close> of an array with one row of three coordinates per entry, and one
  row of \<^verbatim>\<open>((x-cg)**2).sum(axis=1)\<close>.
\<close>

definition mean3 :: "vec3 list \<Rightarrow> vec3" where
  "mean3 ps =
     (sum_list (map fst ps) / real (length ps),
      sum_list (map (\<lambda>p. fst (snd p)) ps) / real (length ps),
      sum_list (map (\<lambda>p. snd (snd p)) ps) / real (length ps))"

fun sqdist :: "vec3 \<Rightarrow> vec3 \<Rightarrow> real" where
  "sqdist (x, y, z) (a, b, c) = (x - a)\<^sup>2 + (y - b)\<^sup>2 + (z - c)\<^sup>2"

text \<open>
  \<^verbatim>\<open>np.argmin\<close>: the index of the first occurrence of the minimum.  \<open>argmin_from\<close>
  scans the rest of the list with the next index, the best index and the best value.
\<close>

fun argmin_from :: "nat \<Rightarrow> nat \<Rightarrow> real \<Rightarrow> real list \<Rightarrow> nat" where
  "argmin_from i bi bv [] = bi"
| "argmin_from i bi bv (d # ds) =
     (if d < bv then argmin_from (Suc i) i d ds else argmin_from (Suc i) bi bv ds)"

fun argmin :: "real list \<Rightarrow> nat" where
  "argmin [] = 0"
| "argmin (d # ds) = argmin_from 1 0 d ds"

definition centroid :: "element \<Rightarrow> vec3" where
  "centroid e = mean3 (node_positions e)"

definition centroids :: "element list \<Rightarrow> vec3 list" where
  "centroids es = map centroid es"

definition distances :: "element list \<Rightarrow> real list" where
  "distances es = map (\<lambda>p. sqdist p (mean3 (centroids es))) (centroids es)"

text \<open>
  \<^verbatim>\<open>SE.get_central_element\<close>.  With an empty element list \<^verbatim>\<open>x\<close> is a
  one-dimensional empty array and \<^verbatim>\<open>sum(axis=1)\<close> raises.
\<close>

definition get_central_element :: "SE \<Rightarrow> error + element option" where
  "get_central_element se =
     (case se_elements se of
        None \<Rightarrow> Inr None
      | Some es \<Rightarrow>
          if es = [] then Inl AxisError
          else Inr (Some (es ! argmin (distances es))))"

subsection \<open>Stress and buckling constraints\<close>

text \<open>
  The table \<^verbatim>\<open>output_codes_SOL200.OUTC\<close> is missing from the sources: the item codes
  are a parameter, \<open>OUTC rtype eltype item\<close> for \<^verbatim>\<open>OUTC[rtype][eltype][item]\<close>.
\<close>

type_synonym outc = "string \<Rightarrow> string \<Rightarrow> string \<Rightarrow> int"

text \<open>\<^verbatim>\<open>self.elements[0]\<close> and the attribute \<^verbatim>\<open>eid\<close> of the central element.\<close>

definition first_element :: "SE \<Rightarrow> error + element" where
  "first_element se =
     (case se_elements se of
        None \<Rightarrow> Inl (TypeError ''NoneType object is not subscriptable'')
      | Some [] \<Rightarrow> Inl IndexError
      | Some (e # es) \<Rightarrow> Inr e)"

definition central_eid :: "SE \<Rightarrow> error + int" where
  "central_eid se =
     (case get_central_element se of
        Inl e \<Rightarrow> Inl e
      | Inr None \<Rightarrow> Inl (AttributeError ''NoneType object has no attribute eid'')
      | Inr (Some e) \<Rightarrow> Inr (el_eid e))"

text \<open>
  One block of \<^verbatim>\<open>Flange1D.create_dvars\<close>: a \<^verbatim>\<open>DEQATN\<close> is built and added, then a
  \<^verbatim>\<open>DVPREL2\<close> on it receives its design variables and constants and is added.
\<close>

definition pbar_relation ::
  "string \<Rightarrow> string \<Rightarrow> int \<Rightarrow> string \<Rightarrow> int list \<Rightarrow> string list \<Rightarrow> state \<Rightarrow> state" where
  "pbar_relation eq ptype pid pname dvs dts s =
     (case DEQATN_init eq (uniqueid s) of (deqatn, c1) \<Rightarrow>
        (let s1 = add_deqatn deqatn (s\<lparr>uniqueid := c1\<rparr>) in
         case DVPREL2_init ptype pid pname (eq_id deqatn) (uniqueid s1) of (dvprel, c2) \<Rightarrow>
           add_dvprel
             (Rel2 (dvprel\<lparr>p2_dvars := p2_dvars dvprel @ dvs,
                           p2_dtable := p2_dtable dvprel @ dts\<rparr>))
             (s1\<lparr>uniqueid := c2\<rparr>)))"

definition pbar_relations :: "string \<Rightarrow> int \<Rightarrow> int list \<Rightarrow> string list \<Rightarrow> state \<Rightarrow> state" where
  "pbar_relations ptype pid dvs dts s =
     pbar_relation ''I1(t,b) = b*t**3/12.;I2 = t*b**3/12. + t*b*(b/2.)**2;J = I1 + I2''
         ptype pid ''J'' dvs dts
       (pbar_relation ''I2(t,b) = t*b**3/12. + t*b*(b/2.)**2'' ptype pid ''I2'' dvs dts
         (pbar_relation ''I1(t,b) = b*t**3/12.'' ptype pid ''I1'' dvs dts
           (pbar_relation ''A(t,b) = t*b'' ptype pid ''A'' dvs dts s)))"

text \<open>
  \<^verbatim>\<open>Flange1D.create_dvars\<close>.  The classes \<^verbatim>\<open>SE1D\<close> and \<^verbatim>\<open>ShearClipSkin\<close> do not
  define the method.  The flag \<^verbatim>\<open>dvars_created\<close> is set before anything can fail.
\<close>

definition create_dvars :: "unit effect" where
  "create_dvars s =
     (if \<not> is_flange (se_class (self s)) then
        (Inl (AttributeError (class_name (se_class (self s)) @
                              '' object has no attribute create_dvars'')), s)
      else if dvars_created (self s) then (Inr (), s)
      else
        (let s0 = s\<lparr>self := (self s)\<lparr>dvars_created := True\<rparr>\<rparr> in
         case first_element (self s0) of
           Inl e \<Rightarrow> (Inl e, s0)
         | Inr el \<Rightarrow>
            (case profile (self s0) of
               None \<Rightarrow> (Inl (AttributeError (class_name (se_class (self s)) @
                                            '' object has no attribute profile'')), s0)
             | Some p \<Rightarrow>
                 if lower p = ''t'' then
                   (case DESVAR_init ''STRBt'' (se_t (self s0)) (t_lb (self s0))
                           (t_ub (self s0)) (uniqueid s0) of (dvar_t, c1) \<Rightarrow>
                      bind_method (add_dvar dvar_t) (\<lambda>u.
                      bind_method (add_dtable ''STRb'' (se_b (self s0))) (\<lambda>dtable_b s3.
                        if el_ptype el = ''PBAR'' then
                          (Inr (), pbar_relations (el_ptype el) (el_pid el)
                                     [dv_id dvar_t] [dtable_b] s3)
                        else (Inl (NotImplementedError (el_ptype el @ '' not supported!'')), s3)))
                        (s0\<lparr>uniqueid := c1\<rparr>))
                 else if lower p = ''t_b'' then
                   (case DESVAR_init ''STRBt'' (se_t (self s0)) (t_lb (self s0))
                           (t_ub (self s0)) (uniqueid s0) of (dvar_t, c1) \<Rightarrow>
                    case DESVAR_init ''STRBb'' (se_b (self s0)) (b_lb (self s0))
                           (b_ub (self s0)) c1 of (dvar_h, c2) \<Rightarrow>
                      bind_method (add_dvar dvar_t) (\<lambda>u.
                      bind_method (add_dvar dvar_h) (\<lambda>u s3.
                        if el_ptype el = ''PBAR'' then
                          (Inr (), pbar_relations (el_ptype el) (el_pid el)
                                     [dv_id dvar_t, dv_id dvar_h] [] s3)
                        else (Inl (NotImplementedError (el_ptype el @ '' not supported!'')), s3)))
                        (s0\<lparr>uniqueid := c2\<rparr>))
                 else (Inr (), s0))))"

text \<open>\<^verbatim>\<open>SE1D.constrain_stress\<close>, branch by branch.\<close>

definition constrain_stress :: "outc \<Rightarrow> real \<Rightarrow> unit effect" where
  "constrain_stress OUTC Fy =
     bind_method create_dvars (\<lambda>u s.
       case central_eid (self s) of
         Inl e \<Rightarrow> (Inl e, s)
       | Inr eid \<Rightarrow>
          (case first_element (self s) of
             Inl e \<Rightarrow> (Inl e, s)
           | Inr el0 \<Rightarrow>
              (if Fy > 0 then
                 (case se_constraints (self s) ''stress_tension'' of
                    None \<Rightarrow> (Inl (KeyError ''stress_tension''), s)
                  | Some dcid \<Rightarrow>
                      if el_type el0 = ''CBAR'' then
                        (case DRESP1_init ''STRmaxS'' ''STRESS'' ''ELEM'' None
                                (Some (OUTC ''STRESS'' ''CBAR'' ''End A maximum'')) None
                                (Some eid) (uniqueid s) of (dresp1, c1) \<Rightarrow>
                           add_constraint dcid (Resp1 dresp1) None (Some Fy)
                             (add_dresp (Resp1 dresp1) (s\<lparr>uniqueid := c1\<rparr>)))
                      else (Inl (NotImplementedError []), s))
               else
                 (case se_constraints (self s) ''stress_compression'' of
                    None \<Rightarrow> (Inl (KeyError ''stress_compression''), s)
                  | Some dcid \<Rightarrow>
                      if el_type el0 = ''CBAR'' then
                        (case DRESP1_init ''STRminS'' ''STRESS'' ''ELEM'' None
                                (Some (OUTC ''STRESS'' ''CBAR'' ''End A minimum'')) None
                                (Some eid) (uniqueid s) of (dresp1, c1) \<Rightarrow>
                           add_constraint dcid (Resp1 dresp1) (Some Fy) None
                             (add_dresp (Resp1 dresp1) (s\<lparr>uniqueid := c1\<rparr>)))
                      else (Inl (NotImplementedError []), s)))))"

text \<open>
  \<^verbatim>\<open>Flange1D.constrain_buckling\<close>.  Both profiles pass the same equation text.
  \<open>lookup_dvar\<close> and \<open>lookup_dtable\<close> are \<^verbatim>\<open>self.dvars[label]\<close> and
  \<^verbatim>\<open>self.dtables[key][0]\<close>.
\<close>

definition buckling_eq :: string where
  "buckling_eq =
     ''bf(dim1,dim3,dim2,E,nu,FA) = dim1-dim3/2.;'' @
     ''bw = dim2-dim3;'' @
     ''tw = dim3;'' @
     ''x = bf/bw;'' @
     ''Kw = -206.08*x**5 + 588.3*x**4 - 596.43*x**3 '' @
     ''+ 249.62*x**2 -41.924*x + 6.4545;'' @
     ''SIGMAcr = Kw*PI(1)**2*E*tw**2/(12.*(1.-nu**2)*bw**2);'' @
     ''MS = SIGMAcr/ABS(MIN(FA, 0.0001))-1.;''"

definition lookup_dvar :: "string \<Rightarrow> DESVAR effect" where
  "lookup_dvar label s =
     (case se_dvars (self s) label of
        None \<Rightarrow> (Inl (KeyError label), s)
      | Some d \<Rightarrow> (Inr d, s))"

definition lookup_dtable :: "string \<Rightarrow> string effect" where
  "lookup_dtable key s =
     (case se_dtables (self s) key of
        None \<Rightarrow> (Inl (KeyError key), s)
      | Some (k, v) \<Rightarrow> (Inr k, s))"

text \<open>
  The common tail of both branches, from \<^verbatim>\<open>OUTC = output_codes_SOL200.OUTC\<close> on, with
  the identifier lists the branch has collected.
\<close>

definition buckling_response ::
  "outc \<Rightarrow> real \<Rightarrow> string \<Rightarrow> DEQATN \<Rightarrow> int list \<Rightarrow> string list \<Rightarrow> unit effect" where
  "buckling_response OUTC ms eltype deqatn dvs dts s =
     (if eltype = ''CBAR'' then
        (case central_eid (self s) of
           Inl e \<Rightarrow> (Inl e, s)
         | Inr eid \<Rightarrow>
            (case DRESP1_init ''STRZFA'' ''STRESS'' ''ELEM'' None
                    (Some (OUTC ''STRESS'' ''CBAR'' ''Axial'')) None (Some eid)
                    (uniqueid s) of (dresp_FA, c1) \<Rightarrow>
               (let s1 = add_dresp (Resp1 dresp_FA) (s\<lparr>uniqueid := c1\<rparr>) in
                case DRESP2_init ''STRBUCK'' (eq_id deqatn) None (uniqueid s1) of (d2, c2) \<Rightarrow>
                  (let dresp2 = d2\<lparr>r2_dvars := dvs, r2_dtable := dts,
                                    r2_dresp1 := [r1_id dresp_FA]\<rparr>;
                       s2 = add_dresp (Resp2 dresp2) (s1\<lparr>uniqueid := c2\<rparr>)
                   in case se_constraints (self s2) ''buckling'' of
                        None \<Rightarrow> (Inl (KeyError ''buckling''), s2)
                      | Some dcid \<Rightarrow> add_constraint dcid (Resp2 dresp2) (Some ms) None s2))))
      else (Inl (NotImplementedError []), s))"

definition constrain_buckling :: "outc \<Rightarrow> int \<Rightarrow> real \<Rightarrow> unit effect" where
  "constrain_buckling OUTC meth ms =
     bind_method create_dvars (\<lambda>u s.
       case first_element (self s) of
         Inl e \<Rightarrow> (Inl e, s)
       | Inr el0 \<Rightarrow>
          (case profile (self s) of
             None \<Rightarrow> (if meth = 1 then
                        (Inl (AttributeError (class_name (se_class (self s)) @
                                              '' object has no attribute profile'')), s)
                      else (Inr (), s))
           | Some p \<Rightarrow>
               if meth = 1 \<and> lower p = ''t'' then
                 (case DEQATN_init buckling_eq (uniqueid s) of (deqatn, c1) \<Rightarrow>
                    bind_method (lookup_dvar ''STRZt'') (\<lambda>dvar_t.
                    bind_method (lookup_dvar ''STRZb'') (\<lambda>dvar_b.
                    bind_method (lookup_dtable ''STRh'') (\<lambda>dtable_h.
                    bind_method (lookup_dtable ''STRE'') (\<lambda>dtable_E.
                    bind_method (lookup_dtable ''STRnu'') (\<lambda>dtable_nu.
                      buckling_response OUTC ms (el_type el0) deqatn
                        [dv_id dvar_b, dv_id dvar_t] [dtable_h, dtable_E, dtable_nu])))))
                      (add_deqatn deqatn (s\<lparr>uniqueid := c1\<rparr>)))
               else if meth = 1 \<and> lower p = ''t_b'' then
                 (case DEQATN_init buckling_eq (uniqueid s) of (deqatn, c1) \<Rightarrow>
                    bind_method (lookup_dvar ''STRZt'') (\<lambda>dvar_t.
                    bind_method (lookup_dvar ''STRZb'') (\<lambda>dvar_b.
                    bind_method (lookup_dvar ''STRZh'') (\<lambda>dvar_h.
                    bind_method (lookup_dtable ''STRE'') (\<lambda>dtable_E.
                    bind_method (lookup_dtable ''STRnu'') (\<lambda>dtable_nu.
                      buckling_response OUTC ms (el_type el0) deqatn
                        [dv_id dvar_b, dv_id dvar_t, dv_id dvar_h] [dtable_E, dtable_nu])))))
                      (add_deqatn deqatn (s\<lparr>uniqueid := c1\<rparr>)))
               else (Inr (), s)))"

subsection \<open>Sequences of response contributions\<close>

text \<open>
  A response is contributed by constructing it and passing it to \<^verbatim>\<open>SE.add_dresp\<close>,
  as \<^verbatim>\<open>constrain_stress\<close>, \<^verbatim>\<open>constrain_vonMises\<close> and \<^verbatim>\<open>constrain_buckling\<close> do.
  A request names the class and the constructor's arguments; \<open>contribute\<close> returns the
  response it built.
\<close>

datatype request =
    NewDRESP1 string string string "int option" "int option" "int option" "int option"
  | NewDRESP2 string int "int option"
  | NewDRESP3 string string string "int option"

fun contribute :: "request \<Rightarrow> state \<Rightarrow> response \<times> state" where
  "contribute (NewDRESP1 label rtype ptype region atta attb atti) s =
     (case DRESP1_init label rtype ptype region atta attb atti (uniqueid s) of (r, c) \<Rightarrow>
        (Resp1 r, add_dresp (Resp1 r) (s\<lparr>uniqueid := c\<rparr>)))"
| "contribute (NewDRESP2 label eqid region) s =
     (case DRESP2_init label eqid region (uniqueid s) of (r, c) \<Rightarrow>
        (Resp2 r, add_dresp (Resp2 r) (s\<lparr>uniqueid := c\<rparr>)))"
| "contribute (NewDRESP3 label grp typ region) s =
     (case DRESP3_init label grp typ region (uniqueid s) of (r, c) \<Rightarrow>
        (Resp3 r, add_dresp (Resp3 r) (s\<lparr>uniqueid := c\<rparr>)))"

fun request_kind :: "request \<Rightarrow> kind" where
  "request_kind (NewDRESP1 label rtype ptype region atta attb atti) = KDRESP1"
| "request_kind (NewDRESP2 label eqid region) = KDRESP2"
| "request_kind (NewDRESP3 label grp typ region) = KDRESP3"

text \<open>
  Several elements assemble into one model: the elements by number, the class counters
  and the optimization model they share.  \<open>contribute_by n q\<close> lets element \<open>n\<close>
  contribute; \<open>contribute_all\<close> runs a sequence of contributions, each by the element
  named with it, and returns the responses built, in order.
\<close>

record assembly =
  as_elements :: "nat \<Rightarrow> SE"
  as_uniqueid :: counters
  as_optmodel :: optmodel

definition fresh_assembly :: "(nat \<Rightarrow> SE) \<Rightarrow> assembly" where
  "fresh_assembly ses =
     \<lparr>as_elements = ses, as_uniqueid = initial_uniqueid, as_optmodel = empty_optmodel\<rparr>"

definition contribute_by :: "nat \<Rightarrow> request \<Rightarrow> assembly \<Rightarrow> response \<times> assembly" where
  "contribute_by n q a =
     (case contribute q \<lparr>self = as_elements a n, uniqueid = as_uniqueid a,
                         optmodel = as_optmodel a\<rparr> of (r, s) \<Rightarrow>
        (r, \<lparr>as_elements = (as_elements a)(n := self s), as_uniqueid = uniqueid s,
             as_optmodel = optmodel s\<rparr>))"

fun contribute_all :: "(nat \<times> request) list \<Rightarrow> assembly \<Rightarrow> response list \<times> assembly" where
  "contribute_all [] a = ([], a)"
| "contribute_all ((n, q) # qs) a =
     (case contribute_by n q a of (r, a1) \<Rightarrow>
        (case contribute_all qs a1 of (rs, a2) \<Rightarrow> (r # rs, a2)))"

subsection \<open>Reading the internal forces of a bar\<close>

text \<open>
  Modelled from the spec: the class of the results object \<^verbatim>\<open>self.model.op2\<close> is
  missing from the sources; the spec gives its two layouts and ses.py the attributes it
  reads.  In the layout with \<^verbatim>\<open>is_vectorized\<close> false, \<^verbatim>\<open>cbar_force[subcase]\<close> is an object with one
  dictionary per quantity, keyed by element id; both bending moments and the shear hold
  a pair per element (plane 1, plane 2).  In the vectorized layout it holds
  \<^verbatim>\<open>element\<close>, the element ids in the order of the rows, and \<^verbatim>\<open>data\<close>, an array
  indexed [time step, row, component]; \<open>vf_ncomp\<close> is \<^verbatim>\<open>data.shape[2]\<close>, which the
  nested lists cannot tell when there is no row.  The entries are of any type with a
  zero (\<^verbatim>\<open>np.zeros\<close>): they are only copied.
\<close>

record 'a cbar_force_obj =
  bendingMomentA :: "int \<rightharpoonup> 'a \<times> 'a"
  bendingMomentB :: "int \<rightharpoonup> 'a \<times> 'a"
  shear :: "int \<rightharpoonup> 'a \<times> 'a"
  axial :: "int \<rightharpoonup> 'a"
  torque :: "int \<rightharpoonup> 'a"

record 'a cbar_force_vec =
  vf_element :: "int list"
  vf_ncomp :: nat
  vf_data :: "'a list list list"

datatype 'a op2 =
    Op2Obj "int list" "int \<rightharpoonup> 'a cbar_force_obj"
  | Op2Vec "int list" "int \<rightharpoonup> 'a cbar_force_vec"

type_synonym 'a forces = "'a list list list"

definition zeros :: "nat \<Rightarrow> nat \<Rightarrow> nat \<Rightarrow> ('a::zero) forces" where
  "zeros nv ne ns = replicate nv (replicate ne (replicate ns 0))"

text \<open>\<^verbatim>\<open>forces[c, :, i] = vals\<close>, for \<open>vals\<close> as long as the slice.\<close>

definition assign_slice :: "nat \<Rightarrow> nat \<Rightarrow> 'a list \<Rightarrow> 'a forces \<Rightarrow> 'a forces" where
  "assign_slice c i vals F = F[c := map (\<lambda>(row, v). row[i := v]) (zip (F ! c) vals)]"

text \<open>
  \<^verbatim>\<open>itemgetter(*eids)(d)\<close> for two or more ids: the tuple of the items, or the
  \<^verbatim>\<open>KeyError\<close> of the first id that is missing.
\<close>

fun getter :: "int list \<Rightarrow> (int \<rightharpoonup> 'b) \<Rightarrow> error + 'b list" where
  "getter [] d = Inr []"
| "getter (e # es) d =
     (case d e of
        None \<Rightarrow> Inl (KeyError (str_int e))
      | Some v \<Rightarrow> (case getter es d of Inl err \<Rightarrow> Inl err | Inr vs \<Rightarrow> Inr (v # vs)))"

text \<open>
  The body of the loop over the subcases in the object layout, for two or more element
  ids: the quantities are read in the order of the source and written to the rows
  0 to 7 of column \<open>i\<close>.
\<close>

definition read_obj_subcase ::
  "int list \<Rightarrow> 'a cbar_force_obj \<Rightarrow> nat \<Rightarrow> 'a forces \<Rightarrow> error + 'a forces" where
  "read_obj_subcase eids d i F =
     (case getter eids (bendingMomentA d) of Inl e \<Rightarrow> Inl e | Inr a \<Rightarrow>
      case getter eids (bendingMomentB d) of Inl e \<Rightarrow> Inl e | Inr b \<Rightarrow>
      case getter eids (shear d) of Inl e \<Rightarrow> Inl e | Inr sh \<Rightarrow>
      case getter eids (axial d) of Inl e \<Rightarrow> Inl e | Inr ax \<Rightarrow>
      case getter eids (torque d) of Inl e \<Rightarrow> Inl e | Inr tq \<Rightarrow>
        Inr (assign_slice 7 i tq (assign_slice 6 i ax
            (assign_slice 5 i (map snd sh) (assign_slice 4 i (map fst sh)
            (assign_slice 3 i (map snd b) (assign_slice 2 i (map fst b)
            (assign_slice 1 i (map snd a) (assign_slice 0 i (map fst a) F)))))))))"

fun read_obj_loop ::
  "int list \<Rightarrow> (int \<rightharpoonup> 'a cbar_force_obj) \<Rightarrow> int list \<Rightarrow> nat \<Rightarrow> 'a forces \<Rightarrow> error + 'a forces"
  where
  "read_obj_loop eids forces [] i F = Inr F"
| "read_obj_loop eids forces (subcase # rest) i F =
     (case forces subcase of
        None \<Rightarrow> Inl (KeyError (str_int subcase))
      | Some d \<Rightarrow>
          (case read_obj_subcase eids d i F of
             Inl e \<Rightarrow> Inl e
           | Inr F' \<Rightarrow> read_obj_loop eids forces rest (Suc i) F'))"

text \<open>
  \<^verbatim>\<open>np.in1d(xs, ys)\<close>, the indices a boolean mask selects, and the assignment
  \<^verbatim>\<open>forces[:, i_panel, i] = data[-1, i_op2, :].swapaxes(-1, -2)\<close>.  The right-hand side
  has one row per selected row of \<^verbatim>\<open>data[-1]\<close>; numpy broadcasts it over the selected
  positions, so each of its two dimensions must equal the target's or be 1.  The mask
  \<^verbatim>\<open>i_op2\<close> was computed from the first subcase and must be as long as
  \<^verbatim>\<open>data.shape[1]\<close> of this one.
\<close>

definition in1d :: "int list \<Rightarrow> int list \<Rightarrow> bool list" where
  "in1d xs ys = map (\<lambda>x. x \<in> set ys) xs"

definition mask_indices :: "bool list \<Rightarrow> nat list" where
  "mask_indices m = filter (\<lambda>j. m ! j) [0..<length m]"

definition mask_select :: "bool list \<Rightarrow> 'b list \<Rightarrow> 'b list" where
  "mask_select m xs = map (\<lambda>j. xs ! j) (mask_indices m)"

definition scatter_entry :: "nat \<Rightarrow> 'a list list \<Rightarrow> nat \<Rightarrow> nat \<Rightarrow> 'a" where
  "scatter_entry ncomp rows j c =
     (rows ! (if length rows = 1 then 0 else j)) ! (if ncomp = 1 then 0 else c)"

fun scatter_positions ::
  "nat \<Rightarrow> 'a list list \<Rightarrow> nat \<Rightarrow> nat list \<Rightarrow> nat \<Rightarrow> 'a forces \<Rightarrow> 'a forces" where
  "scatter_positions ncomp rows i [] j F = F"
| "scatter_positions ncomp rows i (p # ps) j F =
     scatter_positions ncomp rows i ps (Suc j)
       (map (\<lambda>c. (F ! c)[p := ((F ! c) ! p)[i := scatter_entry ncomp rows j c]])
            [0..<length F])"

definition read_vec_subcase ::
  "bool list \<Rightarrow> bool list \<Rightarrow> 'a cbar_force_vec \<Rightarrow> nat \<Rightarrow> 'a forces \<Rightarrow> error + 'a forces" where
  "read_vec_subcase i_op2 i_panel d i F =
     (if vf_data d = [] then Inl IndexError
      else if length i_op2 \<noteq> length (last (vf_data d)) then Inl IndexError
      else
        (let rows = mask_select i_op2 (last (vf_data d));
             ps = mask_indices i_panel
         in if (vf_ncomp d = length F \<or> vf_ncomp d = 1)
               \<and> (length rows = length ps \<or> length rows = 1)
            then Inr (scatter_positions (vf_ncomp d) rows i ps 0 F)
            else Inl ShapeError))"

fun read_vec_loop ::
  "bool list \<Rightarrow> bool list \<Rightarrow> (int \<rightharpoonup> 'a cbar_force_vec) \<Rightarrow> int list \<Rightarrow> nat \<Rightarrow> 'a forces
     \<Rightarrow> error + 'a forces" where
  "read_vec_loop i_op2 i_panel forces [] i F = Inr F"
| "read_vec_loop i_op2 i_panel forces (subcase # rest) i F =
     (case forces subcase of
        None \<Rightarrow> Inl (KeyError (str_int subcase))
      | Some d \<Rightarrow>
          (case read_vec_subcase i_op2 i_panel d i F of
             Inl e \<Rightarrow> Inl e
           | Inr F' \<Rightarrow> read_vec_loop i_op2 i_panel forces rest (Suc i) F'))"

text \<open>
  \<^verbatim>\<open>SE1D.read_forces\<close>, returning \<^verbatim>\<open>self.forces\<close>; the named views are its rows 0
  to 7.  Without an op2 the method prints a message and goes on to read
  \<^verbatim>\<open>self.model.op2.subcases\<close>.  \<^verbatim>\<open>itemgetter()\<close> of no id is a \<^verbatim>\<open>TypeError\<close>; with
  a single id it returns the item itself instead of a tuple, and \<^verbatim>\<open>zip(*tmp)\<close> then
  tries to iterate over the two numbers of the bending moment.
\<close>

definition read_forces :: "int list \<Rightarrow> ('a::zero) op2 option \<Rightarrow> error + 'a forces" where
  "read_forces eids op2 =
     (case op2 of
        None \<Rightarrow> Inl (AttributeError ''NoneType object has no attribute subcases'')
      | Some (Op2Obj subcases forces) \<Rightarrow>
          (case subcases of
             [] \<Rightarrow> Inl IndexError
           | sc0 # rest \<Rightarrow>
              (case forces sc0 of
                 None \<Rightarrow> Inl (KeyError (str_int sc0))
               | Some force1 \<Rightarrow>
                   if eids = [] then Inl (TypeError ''itemgetter expected 1 argument, got 0'')
                   else if length eids = 1 then
                     (case bendingMomentA force1 (hd eids) of
                        None \<Rightarrow> Inl (KeyError (str_int (hd eids)))
                      | Some m \<Rightarrow> Inl (TypeError ''zip argument #1 must support iteration''))
                   else read_obj_loop eids forces subcases 0
                          (zeros 8 (length eids) (length subcases))))
      | Some (Op2Vec subcases forces) \<Rightarrow>
          (case subcases of
             [] \<Rightarrow> Inl IndexError
           | sc0 # rest \<Rightarrow>
              (case forces sc0 of
                 None \<Rightarrow> Inl (KeyError (str_int sc0))
               | Some force1 \<Rightarrow>
                   (case read_vec_loop (in1d (vf_element force1) eids)
                           (in1d eids (vf_element force1)) forces subcases 0
                           (zeros (vf_ncomp force1) (length eids) (length subcases)) of
                      Inl e \<Rightarrow> Inl e
                    | Inr F \<Rightarrow> if length F < 8 then Inl IndexError else Inr F))))"

text \<open>
  The two layouts describe the same forces when, for every subcase, the last time step
  of the vectorized array holds in the row of each element the eight numbers the
  dictionaries hold for it, in the order of the named views.
\<close>

definition obj_row :: "'a cbar_force_obj \<Rightarrow> int \<Rightarrow> 'a list option" where
  "obj_row d e =
     (case (bendingMomentA d e, bendingMomentB d e, shear d e, axial d e, torque d e) of
        (Some a, Some b, Some sh, Some ax, Some tq) \<Rightarrow>
          Some [fst a, snd a, fst b, snd b, fst sh, snd sh, ax, tq]
      | _ \<Rightarrow> None)"

definition same_forces_subcase :: "'a cbar_force_obj \<Rightarrow> 'a cbar_force_vec \<Rightarrow> bool" where
  "same_forces_subcase d v =
     (vf_ncomp v = 8 \<and> vf_data v \<noteq> [] \<and> distinct (vf_element v)
      \<and> map Some (last (vf_data v)) = map (obj_row d) (vf_element v))"

definition same_forces ::
  "int list \<Rightarrow> (int \<rightharpoonup> 'a cbar_force_obj) \<Rightarrow> (int \<rightharpoonup> 'a cbar_force_vec) \<Rightarrow> bool" where
  "same_forces subcases fo fv =
     list_all (\<lambda>sc. case (fo sc, fv sc) of
                      (Some d, Some v) \<Rightarrow> same_forces_subcase d v
                    | _ \<Rightarrow> False) subcases"

subsection \<open>Constructing a link in a running assembly\<close>

text \<open>
  \<^verbatim>\<open>DLINK(...)\<close> evaluated while an element and its model exist: the constructor sees
  the class attribute only.
\<close>

definition construct_DLINK ::
  "int \<Rightarrow> int list \<Rightarrow> real list \<Rightarrow> real \<Rightarrow> real \<Rightarrow> DLINK effect" where
  "construct_DLINK ddvid idvs cs c0 cmult s =
     (case DLINK_init ddvid idvs cs c0 cmult (uniqueid s) of (r, c) \<Rightarrow> (r, s\<lparr>uniqueid := c\<rparr>))"

section \<open>Notions used in the statements\<close>


text \<open>
  Notions for comparing the two layouts: the shape of a three-dimensional array, the
  number the object layout holds for a subcase, an element and a component, and an element
  that lists its ids in the order in which the rows of the results list them.
\<close>

definition shape :: "nat \<Rightarrow> nat \<Rightarrow> nat \<Rightarrow> 'a forces \<Rightarrow> bool" where
  "shape nv n ns F \<longleftrightarrow>
     length F = nv \<and> (\<forall>c < nv. length (F ! c) = n \<and> (\<forall>j < n. length (F ! c ! j) = ns))"

definition component :: "'a cbar_force_obj \<Rightarrow> int \<Rightarrow> nat \<Rightarrow> 'a" where
  "component d e c = the (obj_row d e) ! c"

definition in_results_order :: "int list \<Rightarrow> int list \<Rightarrow> bool" where
  "in_results_order eids element \<longleftrightarrow> filter (\<lambda>e. e \<in> set eids) element = eids"

definition same_elements :: "int list \<Rightarrow> (int \<rightharpoonup> 'a cbar_force_vec) \<Rightarrow> int list \<Rightarrow> bool" where
  "same_elements subcases fv element \<longleftrightarrow>
     list_all (\<lambda>sc. case fv sc of Some v \<Rightarrow> vf_element v = element | None \<Rightarrow> False) subcases"

subsection \<open>Sample inputs\<close>

text \<open>
  A flange of three bars along the x axis with centroids at 0, 2 and 10 (the mean is 4),
  all on one PBAR property, with a design-constraint-set for each constraint kind.
\<close>

definition bar :: "int \<Rightarrow> real \<Rightarrow> real \<Rightarrow> element" where
  "bar eid x0 x1 =
     \<lparr>el_eid = eid, el_type = ''CBAR'', el_pid = 1, el_ptype = ''PBAR'',
      node_positions = [(x0, 0, 0), (x1, 0, 0)]\<rparr>"

definition sample_bars :: "element list" where
  "sample_bars = [bar 10 (-1) 1, bar 11 1 3, bar 12 9 11]"

definition sample_flange :: "string \<Rightarrow> SE" where
  "sample_flange p =
     (SE1D_init InnerFlange ''flange'' [10, 11, 12])
       \<lparr>se_elements := Some sample_bars,
        se_constraints := [''stress_tension'' \<mapsto> 1, ''stress_compression'' \<mapsto> 2,
                           ''buckling'' \<mapsto> 3],
        profile := Some p, se_t := 2, t_lb := 1, t_ub := 5,
        se_b := 20, b_lb := 10, b_ub := 40\<rparr>"

text \<open>
  One subcase with the forces of the elements 10, 11 and 12 in both layouts: the entry
  for element \<open>e\<close> and component \<open>c\<close> is \<open>10 * (e - 10) + c + 101\<close>.
\<close>

definition sample_obj :: "int \<rightharpoonup> int cbar_force_obj" where
  "sample_obj =
     [1 \<mapsto> \<lparr>bendingMomentA = [10 \<mapsto> (101, 102), 11 \<mapsto> (111, 112), 12 \<mapsto> (121, 122)],
            bendingMomentB = [10 \<mapsto> (103, 104), 11 \<mapsto> (113, 114), 12 \<mapsto> (123, 124)],
            shear = [10 \<mapsto> (105, 106), 11 \<mapsto> (115, 116), 12 \<mapsto> (125, 126)],
            axial = [10 \<mapsto> 107, 11 \<mapsto> 117, 12 \<mapsto> 127],
            torque = [10 \<mapsto> 108, 11 \<mapsto> 118, 12 \<mapsto> 128]\<rparr>]"

definition sample_vec :: "int \<rightharpoonup> int cbar_force_vec" where
  "sample_vec =
     [1 \<mapsto> \<lparr>vf_element = [10, 11, 12], vf_ncomp = 8,
            vf_data = [[[101, 102, 103, 104, 105, 106, 107, 108],
                        [111, 112, 113, 114, 115, 116, 117, 118],
                        [121, 122, 123, 124, 125, 126, 127, 128]]]\<rparr>]"

section \<open>Verification\<close>

subsection \<open>Evaluation lemmas\<close>

lemma str_int_0: "str_int 0 = ''0''"
  by (simp add: str_int_def digit_char_def)

lemma str_int_1: "str_int 1 = ''1''"
  by (simp add: str_int_def digit_char_def)

lemma lower_t: "lower ''t'' = ''t''"
  by (simp add: lower_def lower_char_def)

lemma lower_t_b: "lower ''t_b'' = ''t_b''"
  by (simp add: lower_def lower_char_def)

lemma sample_distances: "distances sample_bars = [16, 4, 36]"
  by (simp add: distances_def centroids_def centroid_def mean3_def sample_bars_def bar_def
      power2_eq_square)

lemma sample_central_eid: "se_elements se = Some sample_bars \<Longrightarrow> central_eid se = Inr 11"
  by (simp add: central_eid_def get_central_element_def sample_distances)
     (simp add: sample_bars_def bar_def)

lemma sample_first_element:
  "se_elements se = Some sample_bars \<Longrightarrow> first_element se = Inr (bar 10 (- 1) 1)"
  by (simp add: first_element_def sample_bars_def)

lemma bar_fields:
  "el_eid (bar eid x0 x1) = eid" "el_type (bar eid x0 x1) = ''CBAR''"
  "el_pid (bar eid x0 x1) = 1" "el_ptype (bar eid x0 x1) = ''PBAR''"
  by (simp_all add: bar_def)

lemmas flange_eval =
  create_dvars_def initial_state_def sample_flange_def SE1D_init_def sample_first_element
  bar_fields lower_t lower_t_b DESVAR_init_def take_uniqueid_def bind_method_def
  add_dvar_def add_dtable_def add_dtable_store_def empty_optmodel_def initial_uniqueid_def
  pbar_relations_def pbar_relation_def DEQATN_init_def DVPREL2_init_def add_deqatn_def
  add_dvprel_def lookup_dvar_def lookup_dtable_def add_constraint_def add_dresp_def
  DRESP1_init_def DCONSTR_init_def Let_def

subsection \<open>Identifier allocation\<close>

lemma allocations_ids:
  "ids_of_kind k (allocations ks c) = map (\<lambda>i. c k + int i) [0..<count_list ks k]"
proof (induction ks arbitrary: c)
  case Nil
  then show ?case by (simp add: ids_of_kind_def)
next
  case (Cons a ks)
  have shift: "map (\<lambda>i. c k + 1 + int i) [0..<n] = map (\<lambda>i. c k + int i) [Suc 0..<Suc n]" for n
    by (induction n) auto
  show ?case
  proof (cases "a = k")
    case True
    have "ids_of_kind k (allocations (a # ks) c)
        = c k # ids_of_kind k (allocations ks (c(k := c k + 1)))"
      using True by (simp add: ids_of_kind_def take_uniqueid_def)
    also have "\<dots> = c k # map (\<lambda>i. (c(k := c k + 1)) k + int i) [0..<count_list ks k]"
      by (simp only: Cons.IH)
    also have "\<dots> = c k # map (\<lambda>i. c k + 1 + int i) [0..<count_list ks k]"
      by simp
    also have "\<dots> = map (\<lambda>i. c k + int i) [0..<Suc (count_list ks k)]"
      by (simp add: shift upt_conv_Cons del: upt_Suc)
    finally show ?thesis using True by simp
  next
    case False
    have "ids_of_kind k (allocations (a # ks) c)
        = ids_of_kind k (allocations ks (c(a := c a + 1)))"
      using False by (simp add: ids_of_kind_def take_uniqueid_def)
    also have "\<dots> = map (\<lambda>i. (c(a := c a + 1)) k + int i) [0..<count_list ks k]"
      by (simp only: Cons.IH)
    finally show ?thesis using False by simp
  qed
qed


text \<open>Every constructor takes exactly one identifier of its class, whether it succeeds or not.\<close>

lemma constructors_take_one:
  "snd (DRESP1_init l rt pt rg a b i c) = snd (take_uniqueid KDRESP1 c)"
  "snd (DRESP2_init l e rg c) = snd (take_uniqueid KDRESP2 c)"
  "snd (DRESP3_init l g t rg c) = snd (take_uniqueid KDRESP3 c)"
  "snd (DESVAR_init l x lo hi c) = snd (take_uniqueid KDESVAR c)"
  "snd (DEQATN_init q c) = snd (take_uniqueid KDEQATN c)"
  "snd (DVPREL1_init ty p pn ds cf c0 c) = snd (take_uniqueid KDVPREL1 c)"
  "snd (DLINK_init dd iv cs c0 cm c) = snd (take_uniqueid KDLINK c)"
  by (simp_all add: DRESP1_init_def DRESP2_init_def DRESP3_init_def DESVAR_init_def
      DEQATN_init_def DVPREL1_init_def DLINK_init_def split: prod.splits)

lemma constructors_ids:
  "r1_id (fst (DRESP1_init l rt pt rg a b i c)) = fst (take_uniqueid KDRESP1 c)"
  "r2_id (fst (DRESP2_init l e rg c)) = fst (take_uniqueid KDRESP2 c)"
  "r3_id (fst (DRESP3_init l g t rg c)) = fst (take_uniqueid KDRESP3 c)"
  "dv_id (fst (DESVAR_init l x lo hi c)) = fst (take_uniqueid KDESVAR c)"
  "eq_id (fst (DEQATN_init q c)) = fst (take_uniqueid KDEQATN c)"
  by (simp_all add: DRESP1_init_def DRESP2_init_def DRESP3_init_def DESVAR_init_def
      DEQATN_init_def split: prod.splits)


subsection \<open>Constants\<close>

text \<open>
  Claim C8.  Declaring a constant whose name has 8 characters or more and is already in
  the model's table raises the \<^verbatim>\<open>ValueError\<close> "... is an already existing DTABLE
  entry!" and changes nothing: the state after the call is the state before it, so the
  stored value is the old one and no suffixed or truncated name has been added.
\<close>

theorem add_dtable_long_name_conflict:
  assumes "length key \<ge> 8"
    and "om_dtables (optmodel s) key = Some old"
  shows "add_dtable key v s
           = (Inl (ValueError (key @ '' is an already existing DTABLE entry!'')), s)
       \<and> om_dtables (optmodel (snd (add_dtable key v s))) key = Some old"
  using assms by (simp add: add_dtable_def)

theorem add_dtable_long_name_conflict_witness:
  "fst (add_dtable ''STRENGTH'' 5 (initial_state (sample_flange ''t''))) = Inr ''STRENGTH''
   \<and> fst (add_dtable ''STRENGTH'' 7
            (snd (add_dtable ''STRENGTH'' 5 (initial_state (sample_flange ''t'')))))
       = Inl (ValueError ''STRENGTH is an already existing DTABLE entry!'')
   \<and> om_dtables (optmodel (snd (add_dtable ''STRENGTH'' 7
            (snd (add_dtable ''STRENGTH'' 5 (initial_state (sample_flange ''t''))))))) ''STRENGTH''
       = Some 5"
proof -
  let ?s = "snd (add_dtable ''STRENGTH'' 5 (initial_state (sample_flange ''t'')))"
  have first: "fst (add_dtable ''STRENGTH'' 5 (initial_state (sample_flange ''t''))) = Inr ''STRENGTH''"
    by (simp add: flange_eval)
  have len: "length ''STRENGTH'' \<ge> 8" by simp
  have old: "om_dtables (optmodel ?s) ''STRENGTH'' = Some 5"
    by (simp add: flange_eval)
  show ?thesis
    using first old add_dtable_long_name_conflict[OF len old, of 7] by simp
qed

text \<open>
  Claim C5, as the code has it.  \<^verbatim>\<open>add_dtable\<close> refuses a name its own element has
  declared before (\<^verbatim>\<open>if origkey in self.dtables.keys(): raise\<close>), so the three
  declarations must come from elements that do not hold the name yet.  For a name shorter
  than 8 characters that is new to the model (absent from its table and from its
  collision counters), the first declaration returns the name itself, the second the name
  followed by the counter 0 right-justified with zeros to 8 characters, the third the same
  with the counter 1; the three resolved names are pairwise distinct and at most 8
  characters long, and the model holds each value under its resolved name.
\<close>

theorem add_dtable_three_declarations:
  fixes key :: string and s :: state and se1 se2 se3 :: SE and v1 v2 v3 :: real
  assumes len: "length key < 8"
    and fresh: "om_dtables (optmodel s) key = None"
    and nopre: "om_dtable_prefixes (optmodel s) key = None"
    and l1: "se_dtables se1 key = None"
    and l2: "se_dtables se2 key = None"
    and l3: "se_dtables se3 key = None"
  defines "r1 \<equiv> add_dtable key v1 (s\<lparr>self := se1\<rparr>)"
  defines "r2 \<equiv> add_dtable key v2 ((snd r1)\<lparr>self := se2\<rparr>)"
  defines "r3 \<equiv> add_dtable key v3 ((snd r2)\<lparr>self := se3\<rparr>)"
  defines "k2 \<equiv> key @ rjust (8 - length key) CHR ''0'' ''0''"
    and "k3 \<equiv> key @ rjust (8 - length key) CHR ''0'' ''1''"
  shows "fst r1 = Inr key \<and> fst r2 = Inr k2 \<and> fst r3 = Inr k3
       \<and> distinct [key, k2, k3]
       \<and> length key \<le> 8 \<and> length k2 \<le> 8 \<and> length k3 \<le> 8
       \<and> om_dtables (optmodel (snd r3)) key = Some v1
       \<and> om_dtables (optmodel (snd r3)) k2 = Some v2
       \<and> om_dtables (optmodel (snd r3)) k3 = Some v3"
proof -
  have k2_len: "length k2 = 8" and k3_len: "length k3 = 8"
    using len by (simp_all add: k2_def k3_def rjust_def)
  have k2_ne: "k2 \<noteq> key" and k3_ne: "k3 \<noteq> key" and k23: "k2 \<noteq> k3"
    using len by (auto simp: k2_def k3_def rjust_def)
  have e1: "r1 = (Inr key,
              s\<lparr>self := se1\<lparr>se_dtables := (se_dtables se1)(key \<mapsto> (key, v1))\<rparr>,
                optmodel := (optmodel s)\<lparr>om_dtables := (om_dtables (optmodel s))(key \<mapsto> v1)\<rparr>\<rparr>)"
    using fresh l1 by (simp add: r1_def add_dtable_def add_dtable_store_def)
  have e2: "fst r2 = Inr k2"
    and o2: "om_dtables (optmodel (snd r2)) = (om_dtables (optmodel s))(key \<mapsto> v1, k2 \<mapsto> v2)"
    and p2: "om_dtable_prefixes (optmodel (snd r2)) key = Some 0"
    using len nopre l2 k2_len
    by (simp_all add: r2_def e1 add_dtable_def add_dtable_store_def str_int_0 Let_def k2_def)
  have e3: "fst r3 = Inr k3"
    and o3: "om_dtables (optmodel (snd r3))
               = (om_dtables (optmodel s))(key \<mapsto> v1, k2 \<mapsto> v2, k3 \<mapsto> v3)"
    using len l3 k3_len k2_ne[symmetric] p2 o2
    by (simp_all add: r3_def add_dtable_def add_dtable_store_def str_int_1 Let_def k3_def)
  show ?thesis
    using e1 e2 e3 o3 k2_ne k3_ne k23 k2_len k3_len len by simp
qed

theorem add_dtable_three_declarations_witness:
  "fst (add_dtable ''ALPHA'' 1 (initial_state (SE1D_init InnerFlange ''a'' [1])))
     = Inr ''ALPHA''
   \<and> fst (add_dtable ''ALPHA'' 2
        ((snd (add_dtable ''ALPHA'' 1 (initial_state (SE1D_init InnerFlange ''a'' [1]))))
           \<lparr>self := SE1D_init InnerFlange ''b'' [2]\<rparr>))
     = Inr ''ALPHA000''
   \<and> fst (add_dtable ''ALPHA'' 3
        ((snd (add_dtable ''ALPHA'' 2
           ((snd (add_dtable ''ALPHA'' 1 (initial_state (SE1D_init InnerFlange ''a'' [1]))))
              \<lparr>self := SE1D_init InnerFlange ''b'' [2]\<rparr>)))
           \<lparr>self := SE1D_init OuterFlange ''c'' [3]\<rparr>))
     = Inr ''ALPHA001''
   \<and> om_dtables (optmodel (snd (add_dtable ''ALPHA'' 3
        ((snd (add_dtable ''ALPHA'' 2
           ((snd (add_dtable ''ALPHA'' 1 (initial_state (SE1D_init InnerFlange ''a'' [1]))))
              \<lparr>self := SE1D_init InnerFlange ''b'' [2]\<rparr>)))
           \<lparr>self := SE1D_init OuterFlange ''c'' [3]\<rparr>)))) ''ALPHA000''
     = Some 2"
  using add_dtable_three_declarations[of "''ALPHA''"
      "initial_state (SE1D_init InnerFlange ''a'' [1])"
      "SE1D_init InnerFlange ''a'' [1]" "SE1D_init InnerFlange ''b'' [2]"
      "SE1D_init OuterFlange ''c'' [3]" 1 2 3]
  by (simp add: initial_state_def empty_optmodel_def SE1D_init_def rjust_def eval_nat_numeral)

text \<open>
  The claim as stated fails when one element declares the name twice: the second call
  raises (the bare \<^verbatim>\<open>raise\<close>), after the first returned the name.
\<close>

theorem add_dtable_same_element_twice:
  "fst (add_dtable ''ALPHA'' 1 (initial_state (SE1D_init InnerFlange ''a'' [1])))
     = Inr ''ALPHA''
   \<and> fst (add_dtable ''ALPHA'' 2
        (snd (add_dtable ''ALPHA'' 1 (initial_state (SE1D_init InnerFlange ''a'' [1])))))
     = Inl BareRaise"
  by (simp add: add_dtable_def add_dtable_store_def initial_state_def empty_optmodel_def
      SE1D_init_def Let_def str_int_0 rjust_def)

subsection \<open>Identifiers of the responses in the shared dictionary\<close>

lemma contribute_by_step:
  "\<exists>r a1. contribute_by n q a = (r, a1)
       \<and> resp_kind r = request_kind q \<and> resp_id r = as_uniqueid a (request_kind q)
       \<and> as_uniqueid a1 = (as_uniqueid a)(request_kind q := as_uniqueid a (request_kind q) + 1)
       \<and> om_dresps (as_optmodel a1) = (om_dresps (as_optmodel a))(resp_id r \<mapsto> r)
       \<and> as_elements a1 = (as_elements a)
            (n := (as_elements a n)\<lparr>se_dresps := se_dresps (as_elements a n) @ [r]\<rparr>)"
  by (cases q)
     (simp_all add: contribute_by_def DRESP1_init_def DRESP2_init_def DRESP3_init_def
        take_uniqueid_def add_dresp_def)

lemma contribute_all_allocations:
  "map (\<lambda>r. (resp_kind r, resp_id r)) (fst (contribute_all qs a))
     = allocations (map (\<lambda>p. request_kind (snd p)) qs) (as_uniqueid a)"
proof (induction qs arbitrary: a)
  case Nil
  then show ?case by simp
next
  case (Cons p qs)
  obtain n q where p: "p = (n, q)" by (cases p)
  obtain r a1 where st: "contribute_by n q a = (r, a1)"
    and k: "resp_kind r = request_kind q" and i: "resp_id r = as_uniqueid a (request_kind q)"
    and u: "as_uniqueid a1
              = (as_uniqueid a)(request_kind q := as_uniqueid a (request_kind q) + 1)"
    using contribute_by_step[of n q a] by blast
  have e: "fst (contribute_all (p # qs) a) = r # fst (contribute_all qs a1)"
    by (simp add: p st split: prod.splits)
  have al: "allocations (map (\<lambda>p. request_kind (snd p)) (p # qs)) (as_uniqueid a)
              = (request_kind q, as_uniqueid a (request_kind q))
                # allocations (map (\<lambda>p. request_kind (snd p)) qs) (as_uniqueid a1)"
    by (simp add: p take_uniqueid_def u)
  have IH: "map (\<lambda>r. (resp_kind r, resp_id r)) (fst (contribute_all qs a1))
              = allocations (map (\<lambda>p. request_kind (snd p)) qs) (as_uniqueid a1)"
    by (rule Cons.IH)
  show ?case unfolding e al using IH k i by simp
qed

lemma contribute_all_length: "length (fst (contribute_all qs a)) = length qs"
proof -
  have "length (map (\<lambda>r. (resp_kind r, resp_id r)) (fst (contribute_all qs a)))
          = length (allocations (map (\<lambda>p. request_kind (snd p)) qs) (as_uniqueid a))"
    by (simp only: contribute_all_allocations)
  moreover have "length (allocations ks c) = length ks" for ks c
    by (induction ks arbitrary: c) (simp_all add: take_uniqueid_def)
  ultimately show ?thesis by simp
qed

lemma contribute_all_distinct:
  "distinct (map resp_id (filter (\<lambda>r. resp_kind r = k) (fst (contribute_all qs a))))"
proof -
  have "map resp_id (filter (\<lambda>r. resp_kind r = k) (fst (contribute_all qs a)))
          = ids_of_kind k (map (\<lambda>r. (resp_kind r, resp_id r)) (fst (contribute_all qs a)))"
    by (simp add: ids_of_kind_def filter_map comp_def)
  also have "\<dots> = map (\<lambda>i. as_uniqueid a k + int i)
                      [0..<count_list (map (\<lambda>p. request_kind (snd p)) qs) k]"
    by (simp only: contribute_all_allocations allocations_ids)
  finally show ?thesis by (simp add: distinct_map inj_on_def)
qed

lemma contribute_all_stored:
  assumes "\<forall>p \<in> set qs. request_kind (snd p) = k"
  shows "(\<forall>i < as_uniqueid a k.
            om_dresps (as_optmodel (snd (contribute_all qs a))) i = om_dresps (as_optmodel a) i)
       \<and> (\<forall>r \<in> set (fst (contribute_all qs a)).
            om_dresps (as_optmodel (snd (contribute_all qs a))) (resp_id r) = Some r)"
  using assms
proof (induction qs arbitrary: a)
  case Nil
  then show ?case by simp
next
  case (Cons p qs)
  obtain n q where p: "p = (n, q)" by (cases p)
  have kq: "request_kind q = k" using Cons.prems p by simp
  obtain r a1 where st: "contribute_by n q a = (r, a1)"
    and i: "resp_id r = as_uniqueid a k"
    and u: "as_uniqueid a1 = (as_uniqueid a)(k := as_uniqueid a k + 1)"
    and m: "om_dresps (as_optmodel a1) = (om_dresps (as_optmodel a))(resp_id r \<mapsto> r)"
    using contribute_by_step[of n q a] kq by auto
  have rest: "\<forall>p \<in> set qs. request_kind (snd p) = k" using Cons.prems by simp
  have IH1: "\<forall>i < as_uniqueid a1 k.
            om_dresps (as_optmodel (snd (contribute_all qs a1))) i = om_dresps (as_optmodel a1) i"
    and IH2: "\<forall>r \<in> set (fst (contribute_all qs a1)).
            om_dresps (as_optmodel (snd (contribute_all qs a1))) (resp_id r) = Some r"
    using Cons.IH[OF rest, of a1] by blast+
  have e: "contribute_all (p # qs) a
             = (r # fst (contribute_all qs a1), snd (contribute_all qs a1))"
    by (simp add: p st split: prod.splits)
  have lt: "as_uniqueid a k < as_uniqueid a1 k" using u by simp
  have a: "\<forall>j < as_uniqueid a k.
            om_dresps (as_optmodel (snd (contribute_all (p # qs) a))) j
              = om_dresps (as_optmodel a) j"
    using IH1 lt m i by (simp add: e)
  have b: "om_dresps (as_optmodel (snd (contribute_all qs a1))) (resp_id r) = Some r"
    using IH1 lt m i by simp
  show ?case using a b IH2 by (simp add: e)
qed

lemma contribute_all_recorded:
  "(\<forall>n. set (se_dresps (as_elements a n))
            \<subseteq> set (se_dresps (as_elements (snd (contribute_all qs a)) n)))
   \<and> (\<forall>i < length qs. fst (contribute_all qs a) ! i
            \<in> set (se_dresps (as_elements (snd (contribute_all qs a)) (fst (qs ! i)))))"
proof (induction qs arbitrary: a)
  case Nil
  then show ?case by simp
next
  case (Cons p qs)
  obtain n q where p: "p = (n, q)" by (cases p)
  obtain r a1 where st: "contribute_by n q a = (r, a1)"
    and el: "as_elements a1 = (as_elements a)
            (n := (as_elements a n)\<lparr>se_dresps := se_dresps (as_elements a n) @ [r]\<rparr>)"
    using contribute_by_step[of n q a] by blast
  have e: "contribute_all (p # qs) a
             = (r # fst (contribute_all qs a1), snd (contribute_all qs a1))"
    by (simp add: p st split: prod.splits)
  have IH1: "\<And>m. set (se_dresps (as_elements a1 m))
            \<subseteq> set (se_dresps (as_elements (snd (contribute_all qs a1)) m))"
    and IH2: "\<And>i. i < length qs \<Longrightarrow> fst (contribute_all qs a1) ! i
            \<in> set (se_dresps (as_elements (snd (contribute_all qs a1)) (fst (qs ! i))))"
    using Cons.IH[of a1] by blast+
  have mono: "set (se_dresps (as_elements a m)) \<subseteq> set (se_dresps (as_elements a1 m))" for m
    by (auto simp: el)
  have rin: "r \<in> set (se_dresps (as_elements a1 n))"
    by (simp add: el)
  have a: "\<forall>m. set (se_dresps (as_elements a m))
            \<subseteq> set (se_dresps (as_elements (snd (contribute_all (p # qs) a)) m))"
    using mono IH1 unfolding e by (metis snd_conv subset_trans)
  have b: "(r # fst (contribute_all qs a1)) ! i
            \<in> set (se_dresps (as_elements (snd (contribute_all qs a1)) (fst ((p # qs) ! i))))"
    if "i < length (p # qs)" for i
  proof (cases i)
    case 0
    then show ?thesis using rin IH1[of n] p by auto
  next
    case (Suc j)
    then show ?thesis using that IH2[of j] by simp
  qed
  show ?case using a b unfolding e by simp
qed

text \<open>
  Claim C2, as the code has it.  \<^verbatim>\<open>DRESP1\<close>, \<^verbatim>\<open>DRESP2\<close> and \<^verbatim>\<open>DRESP3\<close> count
  separately, and \<^verbatim>\<open>add_dresp\<close> stores without looking: no contribution fails.  For
  every sequence of response contributions by any elements into a fresh model, every
  contribution yields a response, recorded by the element that contributed it; the
  identifiers of the responses of each class \<open>k\<close> are pairwise distinct; and when all
  contributions are of the one class \<open>k\<close>, every response is found in the model's
  dictionary under its identifier.
\<close>

theorem response_ids_unique_per_class:
  "length (fst (contribute_all qs (fresh_assembly ses))) = length qs
   \<and> (\<forall>i < length qs. fst (contribute_all qs (fresh_assembly ses)) ! i
          \<in> set (se_dresps (as_elements (snd (contribute_all qs (fresh_assembly ses)))
                             (fst (qs ! i)))))
   \<and> distinct (map resp_id (filter (\<lambda>r. resp_kind r = k)
                 (fst (contribute_all qs (fresh_assembly ses)))))
   \<and> ((\<forall>p \<in> set qs. request_kind (snd p) = k) \<longrightarrow>
        (\<forall>r \<in> set (fst (contribute_all qs (fresh_assembly ses))).
           om_dresps (as_optmodel (snd (contribute_all qs (fresh_assembly ses)))) (resp_id r)
             = Some r))"
  using contribute_all_length[of qs "fresh_assembly ses"]
    contribute_all_recorded[of "fresh_assembly ses" qs]
    contribute_all_distinct[of k qs "fresh_assembly ses"]
    contribute_all_stored[of qs k "fresh_assembly ses"]
  by blast

lemmas contribute_eval =
  fresh_assembly_def contribute_by_def sample_flange_def SE1D_init_def empty_optmodel_def
  initial_uniqueid_def DRESP1_init_def DRESP2_init_def take_uniqueid_def add_dresp_def

theorem response_ids_unique_per_class_witness:
  "map resp_id (fst (contribute_all
       [(0, NewDRESP1 ''STRmaxS'' ''STRESS'' ''ELEM'' None (Some 7) None (Some 11)),
        (1, NewDRESP1 ''STRminS'' ''STRESS'' ''ELEM'' None (Some 8) None (Some 11))]
       (fresh_assembly (\<lambda>n. sample_flange ''t'')))) = [8000000, 8000001]
   \<and> distinct (map resp_id (filter (\<lambda>r. resp_kind r = KDRESP1)
       (fst (contribute_all
          [(0, NewDRESP1 ''STRmaxS'' ''STRESS'' ''ELEM'' None (Some 7) None (Some 11)),
           (1, NewDRESP1 ''STRminS'' ''STRESS'' ''ELEM'' None (Some 8) None (Some 11))]
          (fresh_assembly (\<lambda>n. sample_flange ''t''))))))
   \<and> om_dresps (as_optmodel (snd (contribute_all
       [(0, NewDRESP1 ''STRmaxS'' ''STRESS'' ''ELEM'' None (Some 7) None (Some 11)),
        (1, NewDRESP1 ''STRminS'' ''STRESS'' ''ELEM'' None (Some 8) None (Some 11))]
       (fresh_assembly (\<lambda>n. sample_flange ''t''))))) 8000000
     = Some (Resp1 \<lparr>r1_id = 8000000, r1_label = ''STRmaxS'', r1_rtype = ''STRESS'',
                    r1_ptype = ''ELEM'', r1_region = None, r1_atta = Some 7, r1_attb = None,
                    r1_atti = Some 11\<rparr>)"
proof -
  let ?qs = "[(0::nat, NewDRESP1 ''STRmaxS'' ''STRESS'' ''ELEM'' None (Some 7) None (Some 11)),
              (1, NewDRESP1 ''STRminS'' ''STRESS'' ''ELEM'' None (Some 8) None (Some 11))]"
  let ?a = "fresh_assembly (\<lambda>n. sample_flange ''t'')"
  let ?r = "Resp1 \<lparr>r1_id = 8000000, r1_label = ''STRmaxS'', r1_rtype = ''STRESS'',
                    r1_ptype = ''ELEM'', r1_region = None, r1_atta = Some 7, r1_attb = None,
                    r1_atti = Some 11\<rparr>"
  have same: "\<forall>p \<in> set ?qs. request_kind (snd p) = KDRESP1"
    by simp
  have ids: "map resp_id (fst (contribute_all ?qs ?a)) = [8000000, 8000001]"
    by (simp add: contribute_eval)
  have mem: "?r \<in> set (fst (contribute_all ?qs ?a))"
    by (simp add: contribute_eval)
  from response_ids_unique_per_class[of ?qs "\<lambda>n. sample_flange ''t''" KDRESP1] same
  have d: "distinct (map resp_id (filter (\<lambda>r. resp_kind r = KDRESP1)
             (fst (contribute_all ?qs ?a))))"
    and st: "\<forall>r \<in> set (fst (contribute_all ?qs ?a)).
               om_dresps (as_optmodel (snd (contribute_all ?qs ?a))) (resp_id r) = Some r"
    by blast+
  from st mem have "om_dresps (as_optmodel (snd (contribute_all ?qs ?a))) (resp_id ?r) = Some ?r"
    by blast
  then show ?thesis using ids d by simp
qed

text \<open>
  The claim as stated fails across the classes, as \<^verbatim>\<open>constrain_buckling\<close> would
  contribute: the first \<^verbatim>\<open>DRESP1\<close> and the first \<^verbatim>\<open>DRESP2\<close> both receive 8000000,
  the second contribution raises nothing, and the shared dictionary then holds one entry,
  the \<^verbatim>\<open>DRESP2\<close>.
\<close>

theorem response_ids_collide_across_classes:
  "map resp_id (fst (contribute_all
       [(0, NewDRESP1 ''STRZFA'' ''STRESS'' ''ELEM'' None (Some 6) None (Some 11)),
        (0, NewDRESP2 ''STRBUCK'' 8000004 None)]
       (fresh_assembly (\<lambda>n. sample_flange ''t'')))) = [8000000, 8000000]
   \<and> dom (om_dresps (as_optmodel (snd (contribute_all
       [(0, NewDRESP1 ''STRZFA'' ''STRESS'' ''ELEM'' None (Some 6) None (Some 11)),
        (0, NewDRESP2 ''STRBUCK'' 8000004 None)]
       (fresh_assembly (\<lambda>n. sample_flange ''t'')))))) = {8000000}
   \<and> om_dresps (as_optmodel (snd (contribute_all
       [(0, NewDRESP1 ''STRZFA'' ''STRESS'' ''ELEM'' None (Some 6) None (Some 11)),
        (0, NewDRESP2 ''STRBUCK'' 8000004 None)]
       (fresh_assembly (\<lambda>n. sample_flange ''t''))))) 8000000
     = Some (Resp2 \<lparr>r2_id = 8000000, r2_label = ''STRBUCK'', r2_eqid = 8000004,
                    r2_region = None, r2_dvars = [], r2_dtable = [], r2_dresp1 = []\<rparr>)"
  by (simp add: contribute_eval)

subsection \<open>The central element\<close>






subsection \<open>Variable links\<close>

text \<open>
  Claim C9.  Constructing a \<^verbatim>\<open>DLINK\<close> whose list of independent variables and list
  of multipliers differ in length raises the \<^verbatim>\<open>AssertionError\<close> "Lengths must be the
  same"; no object results, and neither the element nor the optimization model is
  touched.
\<close>

theorem dlink_length_mismatch:
  assumes "length idvs \<noteq> length cs"
  shows "fst (construct_DLINK ddvid idvs cs c0 cmult s)
           = Inl (AssertionError ''Lengths must be the same'')
       \<and> optmodel (snd (construct_DLINK ddvid idvs cs c0 cmult s)) = optmodel s
       \<and> self (snd (construct_DLINK ddvid idvs cs c0 cmult s)) = self s"
  using assms by (simp add: construct_DLINK_def DLINK_init_def take_uniqueid_def)

theorem dlink_length_mismatch_witness:
  "fst (construct_DLINK 8000002 [8000000, 8000001] [1] 0 1 (initial_state (sample_flange ''t'')))
     = Inl (AssertionError ''Lengths must be the same'')
   \<and> optmodel (snd (construct_DLINK 8000002 [8000000, 8000001] [1] 0 1
                      (initial_state (sample_flange ''t'')))) = empty_optmodel"
proof -
  have ne: "length [8000000, 8000001 :: int] \<noteq> length [1 :: real]" by simp
  show ?thesis
    using dlink_length_mismatch[OF ne, of 8000002 0 1 "initial_state (sample_flange ''t'')"]
    by (simp add: initial_state_def)
qed

subsection \<open>Constraints never reach the model\<close>

text \<open>
  \<^verbatim>\<open>add_constraint\<close> raises on every input, after the append to the element's list
  and before the write to \<^verbatim>\<open>optmodel.dconstrs\<close>.
\<close>

lemma add_constraint_raises:
  "fst (add_constraint dcid r lb ub s)
     = Inl (AttributeError ''DCONSTR object has no attribute id'')"
  "optmodel (snd (add_constraint dcid r lb ub s)) = optmodel s"
  "se_dconstrs (self (snd (add_constraint dcid r lb ub s)))
     = se_dconstrs (self s) @ [DCONSTR_init dcid (resp_id r) lb ub]"
  by (simp_all add: add_constraint_def Let_def)

lemma bind_method_fails:
  assumes "\<And>x s'. \<exists>e. fst (f x s') = Inl e"
  shows "\<exists>e. fst (bind_method m f s) = Inl e"
proof (cases "m s")
  case (Pair r s')
  show ?thesis
  proof (cases r)
    case (Inl e)
    with Pair show ?thesis by (simp add: bind_method_def)
  next
    case (Inr x)
    with Pair assms[of x s'] show ?thesis by (simp add: bind_method_def)
  qed
qed

lemma bind_method_dconstrs:
  assumes "om_dconstrs (optmodel (snd (m s))) = X"
    and "\<And>x s'. om_dconstrs (optmodel (snd (f x s'))) = om_dconstrs (optmodel s')"
  shows "om_dconstrs (optmodel (snd (bind_method m f s))) = X"
  using assms by (cases "m s") (auto simp: bind_method_def split: sum.splits)

lemma add_dtable_dconstrs:
  "om_dconstrs (optmodel (snd (add_dtable key v s))) = om_dconstrs (optmodel s)"
  by (simp add: add_dtable_def add_dtable_store_def Let_def)

lemma add_dvar_dconstrs:
  "om_dconstrs (optmodel (snd (add_dvar d s))) = om_dconstrs (optmodel s)"
  by (simp add: add_dvar_def)

lemma pbar_relation_dconstrs:
  "om_dconstrs (optmodel (pbar_relation eq pt pid pn dvs dts s)) = om_dconstrs (optmodel s)"
  by (simp add: pbar_relation_def add_deqatn_def add_dvprel_def DEQATN_init_def
      DVPREL2_init_def take_uniqueid_def Let_def)

lemma pbar_relations_dconstrs:
  "om_dconstrs (optmodel (pbar_relations pt pid dvs dts s)) = om_dconstrs (optmodel s)"
  by (simp add: pbar_relations_def pbar_relation_dconstrs)

lemma create_dvars_dconstrs:
  "om_dconstrs (optmodel (snd (create_dvars s))) = om_dconstrs (optmodel s)"
  unfolding create_dvars_def Let_def
  by (auto split: sum.splits option.splits prod.splits
      intro!: bind_method_dconstrs
      simp: add_dtable_dconstrs add_dvar_dconstrs pbar_relations_dconstrs)

lemma add_dresp_dconstrs: "om_dconstrs (optmodel (add_dresp r s)) = om_dconstrs (optmodel s)"
  by (simp add: add_dresp_def)

text \<open>
  Whatever the element, the state and the allowable: \<^verbatim>\<open>constrain_stress\<close> ends in an
  exception and leaves the model's constraint dictionary as it found it.
\<close>

lemma constrain_stress_never_returns: "\<exists>e. fst (constrain_stress OUTC Fy s) = Inl e"
  unfolding constrain_stress_def
  by (rule bind_method_fails)
     (auto simp: add_constraint_raises split: sum.splits option.splits prod.splits)

lemma constrain_stress_dconstrs:
  "om_dconstrs (optmodel (snd (constrain_stress OUTC Fy s))) = om_dconstrs (optmodel s)"
  unfolding constrain_stress_def
  by (rule bind_method_dconstrs)
     (auto simp: create_dvars_dconstrs add_constraint_raises add_dresp_dconstrs
           split: sum.splits option.splits prod.splits)

lemma buckling_response_never_returns:
  "\<exists>e. fst (buckling_response OUTC ms eltype deqatn dvs dts s) = Inl e"
  unfolding buckling_response_def
  by (auto simp: add_constraint_raises Let_def split: sum.splits option.splits prod.splits)

lemmas stress_eval = flange_eval constrain_stress_def sample_central_eid

text \<open>
  Claim C4, evaluated.  On the sample flange (resolved CBAR elements, PBAR property,
  profile \<^verbatim>\<open>t\<close>, set 1 for tension and set 2 for compression) \<^verbatim>\<open>constrain_stress\<close>
  with the allowable 50 registers the one response 8000000 and builds the one constraint
  with set 1, no lower bound and the upper bound 50, and with the allowable -50 the one
  constraint with set 2, the lower bound -50 and no upper bound; in both cases the
  constraint is appended to the element's own list only, the call raises the
  \<^verbatim>\<open>AttributeError\<close> of \<^verbatim>\<open>dconstr.id\<close>, and the model's constraint dictionary stays
  empty.
\<close>

theorem constrain_stress_raises_on_registration:
  "fst (constrain_stress OUTC 50 (initial_state (sample_flange ''t'')))
     = Inl (AttributeError ''DCONSTR object has no attribute id'')
   \<and> dom (om_dresps (optmodel (snd (constrain_stress OUTC 50
            (initial_state (sample_flange ''t'')))))) = {8000000}
   \<and> se_dconstrs (self (snd (constrain_stress OUTC 50 (initial_state (sample_flange ''t'')))))
     = [\<lparr>dc_dcid = 1, dc_rid = 8000000, dc_lallow = None, dc_uallow = Some 50\<rparr>]
   \<and> om_dconstrs (optmodel (snd (constrain_stress OUTC 50
            (initial_state (sample_flange ''t''))))) = Map.empty
   \<and> fst (constrain_stress OUTC (- 50) (initial_state (sample_flange ''t'')))
     = Inl (AttributeError ''DCONSTR object has no attribute id'')
   \<and> dom (om_dresps (optmodel (snd (constrain_stress OUTC (- 50)
            (initial_state (sample_flange ''t'')))))) = {8000000}
   \<and> se_dconstrs (self (snd (constrain_stress OUTC (- 50)
            (initial_state (sample_flange ''t'')))))
     = [\<lparr>dc_dcid = 2, dc_rid = 8000000, dc_lallow = Some (- 50), dc_uallow = None\<rparr>]
   \<and> om_dconstrs (optmodel (snd (constrain_stress OUTC (- 50)
            (initial_state (sample_flange ''t''))))) = Map.empty"
  by (simp add: stress_eval)

text \<open>
  Claim C10, evaluated.  With the allowable 0 the same call takes the compression branch:
  the response is labelled \<^verbatim>\<open>STRminS\<close> with the code of "End A minimum", and the
  constraint it builds has set 2, the lower bound 0 and no upper bound.  As for every
  allowable, the constraint reaches the element's own list only: the call raises and the
  model's constraint dictionary stays empty.
\<close>

theorem constrain_stress_zero_allowable:
  "fst (constrain_stress OUTC 0 (initial_state (sample_flange ''t'')))
     = Inl (AttributeError ''DCONSTR object has no attribute id'')
   \<and> se_dresps (self (snd (constrain_stress OUTC 0 (initial_state (sample_flange ''t'')))))
     = [Resp1 \<lparr>r1_id = 8000000, r1_label = ''STRminS'', r1_rtype = ''STRESS'',
               r1_ptype = ''ELEM'', r1_region = None,
               r1_atta = Some (OUTC ''STRESS'' ''CBAR'' ''End A minimum''),
               r1_attb = None, r1_atti = Some 11\<rparr>]
   \<and> se_dconstrs (self (snd (constrain_stress OUTC 0 (initial_state (sample_flange ''t'')))))
     = [\<lparr>dc_dcid = 2, dc_rid = 8000000, dc_lallow = Some 0, dc_uallow = None\<rparr>]
   \<and> om_dconstrs (optmodel (snd (constrain_stress OUTC 0
            (initial_state (sample_flange ''t''))))) = Map.empty"
  by (simp add: stress_eval)

text \<open>
  An element of class \<^verbatim>\<open>SE1D\<close> itself has no \<^verbatim>\<open>create_dvars\<close>: the first statement
  of \<^verbatim>\<open>constrain_stress\<close> raises and nothing is registered.
\<close>

lemma constrain_stress_plain_SE1D:
  "constrain_stress OUTC Fy (initial_state ((sample_flange ''t'')\<lparr>se_class := SE1D\<rparr>))
     = (Inl (AttributeError ''SE1D object has no attribute create_dvars''),
        initial_state ((sample_flange ''t'')\<lparr>se_class := SE1D\<rparr>))"
  by (simp add: constrain_stress_def create_dvars_def bind_method_def initial_state_def
      sample_flange_def SE1D_init_def)

lemma bind_method_profile:
  assumes "profile (self (snd (m s))) = X"
    and "\<And>x s'. profile (self (snd (f x s'))) = profile (self s')"
  shows "profile (self (snd (bind_method m f s))) = X"
  using assms by (cases "m s") (auto simp: bind_method_def split: sum.splits)

lemma add_dtable_profile: "profile (self (snd (add_dtable key v s))) = profile (self s)"
  by (simp add: add_dtable_def add_dtable_store_def Let_def)

lemma add_dvar_profile: "profile (self (snd (add_dvar d s))) = profile (self s)"
  by (simp add: add_dvar_def)

lemma pbar_relation_profile:
  "profile (self (pbar_relation eq pt pid pn dvs dts s)) = profile (self s)"
  by (simp add: pbar_relation_def add_deqatn_def add_dvprel_def DEQATN_init_def
      DVPREL2_init_def take_uniqueid_def Let_def)

lemma pbar_relations_profile:
  "profile (self (pbar_relations pt pid dvs dts s)) = profile (self s)"
  by (simp add: pbar_relations_def pbar_relation_profile)

lemma create_dvars_profile: "profile (self (snd (create_dvars s))) = profile (self s)"
  unfolding create_dvars_def Let_def
  by (auto split: sum.splits option.splits prod.splits
      intro!: bind_method_profile
      simp: add_dtable_profile add_dvar_profile pbar_relations_profile)

text \<open>
  Whatever the state: with method 1 and a profile \<^verbatim>\<open>t\<close> or \<^verbatim>\<open>t_b\<close>,
  \<^verbatim>\<open>constrain_buckling\<close> ends in an exception.
\<close>

lemma constrain_buckling_never_returns:
  assumes "profile (self s) = Some p" "lower p = ''t'' \<or> lower p = ''t_b''"
  shows "\<exists>e. fst (constrain_buckling OUTC 1 ms s) = Inl e"
proof (cases "create_dvars s")
  case (Pair r s')
  have p': "profile (self s') = Some p"
    using create_dvars_profile[of s] Pair assms(1) by simp
  show ?thesis
  proof (cases r)
    case (Inl e)
    then show ?thesis using Pair by (simp add: constrain_buckling_def bind_method_def)
  next
    case (Inr u)
    show ?thesis
    proof (cases "first_element (self s')")
      case (Inl e)
      then show ?thesis using Pair Inr by (simp add: constrain_buckling_def bind_method_def)
    next
      case el: (Inr el0)
      obtain deqatn c1 where dq: "DEQATN_init buckling_eq (uniqueid s') = (deqatn, c1)"
        by (cases "DEQATN_init buckling_eq (uniqueid s')")
      have t: "\<exists>e. fst (bind_method (lookup_dvar ''STRZt'') (\<lambda>dvar_t.
                    bind_method (lookup_dvar ''STRZb'') (\<lambda>dvar_b.
                    bind_method (lookup_dtable ''STRh'') (\<lambda>dtable_h.
                    bind_method (lookup_dtable ''STRE'') (\<lambda>dtable_E.
                    bind_method (lookup_dtable ''STRnu'') (\<lambda>dtable_nu.
                      buckling_response OUTC ms (el_type el0) deqatn
                        [dv_id dvar_b, dv_id dvar_t] [dtable_h, dtable_E, dtable_nu])))))
                      (add_deqatn deqatn (s'\<lparr>uniqueid := c1\<rparr>))) = Inl e"
        by (intro bind_method_fails buckling_response_never_returns)
      have tb: "\<exists>e. fst (bind_method (lookup_dvar ''STRZt'') (\<lambda>dvar_t.
                    bind_method (lookup_dvar ''STRZb'') (\<lambda>dvar_b.
                    bind_method (lookup_dvar ''STRZh'') (\<lambda>dvar_h.
                    bind_method (lookup_dtable ''STRE'') (\<lambda>dtable_E.
                    bind_method (lookup_dtable ''STRnu'') (\<lambda>dtable_nu.
                      buckling_response OUTC ms (el_type el0) deqatn
                        [dv_id dvar_b, dv_id dvar_t, dv_id dvar_h] [dtable_E, dtable_nu])))))
                      (add_deqatn deqatn (s'\<lparr>uniqueid := c1\<rparr>))) = Inl e"
        by (intro bind_method_fails buckling_response_never_returns)
      show ?thesis
        using Pair Inr el p' dq assms(2) t tb
        by (auto simp: constrain_buckling_def bind_method_def)
    qed
  qed
qed

lemmas buckling_eval = flange_eval constrain_buckling_def

text \<open>
  Claim C3, evaluated.  On the sample flange, for the profile \<^verbatim>\<open>t\<close> and for the profile
  \<^verbatim>\<open>t_b\<close>, \<^verbatim>\<open>create_dvars\<close> succeeds and leaves the design variables \<^verbatim>\<open>STRBt\<close>
  (and \<^verbatim>\<open>STRBb\<close>) and the constant \<^verbatim>\<open>STRb\<close>; \<^verbatim>\<open>constrain_buckling\<close> with method 1
  then adds its equation and raises the \<^verbatim>\<open>KeyError\<close> of \<^verbatim>\<open>self.dvars['STRZt']\<close>: no
  response and no constraint is built.
\<close>

theorem constrain_buckling_raises_key_error:
  "fst (create_dvars (initial_state (sample_flange ''t''))) = Inr ()
   \<and> dom (se_dvars (self (snd (create_dvars (initial_state (sample_flange ''t''))))))
     = {''STRBt''}
   \<and> dom (se_dtables (self (snd (create_dvars (initial_state (sample_flange ''t''))))))
     = {''STRb''}
   \<and> fst (constrain_buckling OUTC 1 ms
            (snd (create_dvars (initial_state (sample_flange ''t'')))))
     = Inl (KeyError ''STRZt'')
   \<and> map eq_text (se_deqatns (self (snd (constrain_buckling OUTC 1 ms
            (snd (create_dvars (initial_state (sample_flange ''t''))))))))
     = [''A(t,b) = t*b'', ''I1(t,b) = b*t**3/12.'', ''I2(t,b) = t*b**3/12. + t*b*(b/2.)**2'',
        ''I1(t,b) = b*t**3/12.;I2 = t*b**3/12. + t*b*(b/2.)**2;J = I1 + I2'', buckling_eq]
   \<and> se_dresps (self (snd (constrain_buckling OUTC 1 ms
            (snd (create_dvars (initial_state (sample_flange ''t''))))))) = []
   \<and> se_dconstrs (self (snd (constrain_buckling OUTC 1 ms
            (snd (create_dvars (initial_state (sample_flange ''t''))))))) = []
   \<and> om_dconstrs (optmodel (snd (constrain_buckling OUTC 1 ms
            (snd (create_dvars (initial_state (sample_flange ''t''))))))) = Map.empty
   \<and> fst (create_dvars (initial_state (sample_flange ''t_b''))) = Inr ()
   \<and> dom (se_dvars (self (snd (create_dvars (initial_state (sample_flange ''t_b''))))))
     = {''STRBt'', ''STRBb''}
   \<and> fst (constrain_buckling OUTC 1 ms
            (snd (create_dvars (initial_state (sample_flange ''t_b'')))))
     = Inl (KeyError ''STRZt'')
   \<and> se_dresps (self (snd (constrain_buckling OUTC 1 ms
            (snd (create_dvars (initial_state (sample_flange ''t_b''))))))) = []
   \<and> se_dconstrs (self (snd (constrain_buckling OUTC 1 ms
            (snd (create_dvars (initial_state (sample_flange ''t_b''))))))) = []"
  by (simp add: buckling_eval insert_commute)

subsection \<open>The two layouts of the bar forces\<close>

lemmas forces_eval =
  read_forces_def sample_obj_def sample_vec_def zeros_def read_obj_subcase_def
  assign_slice_def read_vec_subcase_def in1d_def mask_indices_def mask_select_def
  scatter_entry_def eval_nat_numeral upt_rec

lemma shape_ext:
  assumes "shape nv n ns F" "shape nv n ns G"
    and "\<And>c j k. c < nv \<Longrightarrow> j < n \<Longrightarrow> k < ns \<Longrightarrow> F ! c ! j ! k = G ! c ! j ! k"
  shows "F = G"
proof (rule nth_equalityI)
  show "length F = length G" using assms(1,2) by (simp add: shape_def)
next
  fix c assume c: "c < length F"
  then have cn: "c < nv" using assms(1) by (simp add: shape_def)
  show "F ! c = G ! c"
  proof (rule nth_equalityI)
    show "length (F ! c) = length (G ! c)" using assms(1,2) cn by (simp add: shape_def)
  next
    fix j assume "j < length (F ! c)"
    then have jn: "j < n" using assms(1) cn by (simp add: shape_def)
    show "F ! c ! j = G ! c ! j"
    proof (rule nth_equalityI)
      show "length (F ! c ! j) = length (G ! c ! j)"
        using assms(1,2) cn jn by (simp add: shape_def)
    next
      fix k assume "k < length (F ! c ! j)"
      then have "k < ns" using assms(1) cn jn by (simp add: shape_def)
      then show "F ! c ! j ! k = G ! c ! j ! k" using assms(3) cn jn by blast
    qed
  qed
qed

lemma shape_zeros: "shape nv n ns (zeros nv n ns)"
  by (simp add: shape_def zeros_def)

lemma zeros_nth: "c < nv \<Longrightarrow> j < n \<Longrightarrow> k < ns \<Longrightarrow> zeros nv n ns ! c ! j ! k = 0"
  by (simp add: zeros_def)

lemma assign_slice_shape:
  assumes "shape nv n ns F" "c < nv" "length vals = n"
  shows "shape nv n ns (assign_slice c i vals F)"
  using assms by (auto simp: shape_def assign_slice_def nth_list_update)

lemma assign_slice_nth:
  assumes "shape nv n ns F" "c < nv" "length vals = n" "c' < nv" "j < n" "k < ns"
  shows "assign_slice c i vals F ! c' ! j ! k
           = (if c' = c \<and> k = i then vals ! j else F ! c' ! j ! k)"
  using assms by (auto simp: shape_def assign_slice_def nth_list_update)


lemma getter_defined:
  "\<forall>e \<in> set eids. q e \<noteq> None \<Longrightarrow> getter eids q = Inr (map (\<lambda>e. the (q e)) eids)"
  by (induction eids) auto

lemma obj_row_SomeD:
  assumes "obj_row d e \<noteq> None"
  shows "bendingMomentA d e \<noteq> None" "bendingMomentB d e \<noteq> None" "shear d e \<noteq> None"
    "axial d e \<noteq> None" "torque d e \<noteq> None"
    "the (obj_row d e) =
       [fst (the (bendingMomentA d e)), snd (the (bendingMomentA d e)),
        fst (the (bendingMomentB d e)), snd (the (bendingMomentB d e)),
        fst (the (shear d e)), snd (the (shear d e)), the (axial d e), the (torque d e)]"
  using assms by (auto simp: obj_row_def split: option.splits)

lemma less_8_cases:
  "c < 8 \<Longrightarrow> c = 0 \<or> c = 1 \<or> c = 2 \<or> c = 3 \<or> c = 4 \<or> c = 5 \<or> c = 6 \<or> c = (7::nat)"
  by arith

lemma read_obj_subcase_entries:
  assumes sh: "shape 8 n ns F" and len: "length eids = n"
    and def: "\<forall>e \<in> set eids. obj_row d e \<noteq> None"
  shows "\<exists>F'. read_obj_subcase eids d i F = Inr F' \<and> shape 8 n ns F'
          \<and> (\<forall>c < 8. \<forall>j < n. \<forall>k < ns.
                F' ! c ! j ! k = (if k = i then component d (eids ! j) c else F ! c ! j ! k))"
proof -
  let ?a = "map (\<lambda>e. the (bendingMomentA d e)) eids"
  let ?b = "map (\<lambda>e. the (bendingMomentB d e)) eids"
  let ?s = "map (\<lambda>e. the (shear d e)) eids"
  let ?x = "map (\<lambda>e. the (axial d e)) eids"
  let ?t = "map (\<lambda>e. the (torque d e)) eids"
  have g: "getter eids (bendingMomentA d) = Inr ?a" "getter eids (bendingMomentB d) = Inr ?b"
    "getter eids (shear d) = Inr ?s" "getter eids (axial d) = Inr ?x"
    "getter eids (torque d) = Inr ?t"
    using def by (simp_all add: getter_defined obj_row_SomeD)
  define G0 where "G0 = assign_slice 0 i (map fst ?a) F"
  define G1 where "G1 = assign_slice 1 i (map snd ?a) G0"
  define G2 where "G2 = assign_slice 2 i (map fst ?b) G1"
  define G3 where "G3 = assign_slice 3 i (map snd ?b) G2"
  define G4 where "G4 = assign_slice 4 i (map fst ?s) G3"
  define G5 where "G5 = assign_slice 5 i (map snd ?s) G4"
  define G6 where "G6 = assign_slice 6 i ?x G5"
  define G7 where "G7 = assign_slice 7 i ?t G6"
  have r: "read_obj_subcase eids d i F = Inr G7"
    by (simp add: read_obj_subcase_def g G0_def G1_def G2_def G3_def G4_def G5_def G6_def G7_def)
  have s0: "shape 8 n ns G0" unfolding G0_def using sh len by (intro assign_slice_shape) simp_all
  have s1: "shape 8 n ns G1" unfolding G1_def using s0 len by (intro assign_slice_shape) simp_all
  have s2: "shape 8 n ns G2" unfolding G2_def using s1 len by (intro assign_slice_shape) simp_all
  have s3: "shape 8 n ns G3" unfolding G3_def using s2 len by (intro assign_slice_shape) simp_all
  have s4: "shape 8 n ns G4" unfolding G4_def using s3 len by (intro assign_slice_shape) simp_all
  have s5: "shape 8 n ns G5" unfolding G5_def using s4 len by (intro assign_slice_shape) simp_all
  have s6: "shape 8 n ns G6" unfolding G6_def using s5 len by (intro assign_slice_shape) simp_all
  have s7: "shape 8 n ns G7" unfolding G7_def using s6 len by (intro assign_slice_shape) simp_all
  have e: "G7 ! c ! j ! k = (if k = i then component d (eids ! j) c else F ! c ! j ! k)"
    if c: "c < 8" and j: "j < n" and k: "k < ns" for c j k
  proof -
    have row: "the (obj_row d (eids ! j)) =
       [fst (the (bendingMomentA d (eids ! j))), snd (the (bendingMomentA d (eids ! j))),
        fst (the (bendingMomentB d (eids ! j))), snd (the (bendingMomentB d (eids ! j))),
        fst (the (shear d (eids ! j))), snd (the (shear d (eids ! j))),
        the (axial d (eids ! j)), the (torque d (eids ! j))]"
      using def j len by (intro obj_row_SomeD) simp
    have n0: "G0 ! c ! j ! k = (if c = 0 \<and> k = i then map fst ?a ! j else F ! c ! j ! k)"
      unfolding G0_def using sh len c j k by (intro assign_slice_nth) simp_all
    have n1: "G1 ! c ! j ! k = (if c = 1 \<and> k = i then map snd ?a ! j else G0 ! c ! j ! k)"
      unfolding G1_def using s0 len c j k by (intro assign_slice_nth) simp_all
    have n2: "G2 ! c ! j ! k = (if c = 2 \<and> k = i then map fst ?b ! j else G1 ! c ! j ! k)"
      unfolding G2_def using s1 len c j k by (intro assign_slice_nth) simp_all
    have n3: "G3 ! c ! j ! k = (if c = 3 \<and> k = i then map snd ?b ! j else G2 ! c ! j ! k)"
      unfolding G3_def using s2 len c j k by (intro assign_slice_nth) simp_all
    have n4: "G4 ! c ! j ! k = (if c = 4 \<and> k = i then map fst ?s ! j else G3 ! c ! j ! k)"
      unfolding G4_def using s3 len c j k by (intro assign_slice_nth) simp_all
    have n5: "G5 ! c ! j ! k = (if c = 5 \<and> k = i then map snd ?s ! j else G4 ! c ! j ! k)"
      unfolding G5_def using s4 len c j k by (intro assign_slice_nth) simp_all
    have n6: "G6 ! c ! j ! k = (if c = 6 \<and> k = i then ?x ! j else G5 ! c ! j ! k)"
      unfolding G6_def using s5 len c j k by (intro assign_slice_nth) simp_all
    have n7: "G7 ! c ! j ! k = (if c = 7 \<and> k = i then ?t ! j else G6 ! c ! j ! k)"
      unfolding G7_def using s6 len c j k by (intro assign_slice_nth) simp_all
    show ?thesis
      using less_8_cases[OF c] j len n0 n1 n2 n3 n4 n5 n6 n7
      by (auto simp: component_def row)
  qed
  show ?thesis using r s7 e by blast
qed


lemma scatter_upt:
  assumes "shape nv n ns F" "a \<le> n"
  shows "shape nv n ns (scatter_positions ncomp rows i [a..<n] a F)
       \<and> (\<forall>c < nv. \<forall>p < n. \<forall>k < ns.
            scatter_positions ncomp rows i [a..<n] a F ! c ! p ! k
              = (if k = i \<and> a \<le> p then scatter_entry ncomp rows p c else F ! c ! p ! k))"
  using assms
proof (induction "n - a" arbitrary: a F)
  case 0
  then show ?case by simp
next
  case (Suc m)
  then have lt: "a < n" by simp
  define F1 where
    "F1 = map (\<lambda>c. (F ! c)[a := ((F ! c) ! a)[i := scatter_entry ncomp rows a c]]) [0..<length F]"
  have lenF: "length F = nv" using Suc.prems by (simp add: shape_def)
  have sh1: "shape nv n ns F1"
    using Suc.prems lt by (auto simp: shape_def F1_def nth_list_update)
  have e1: "F1 ! c ! p ! k = (if p = a \<and> k = i then scatter_entry ncomp rows a c else F ! c ! p ! k)"
    if "c < nv" "p < n" "k < ns" for c p k
    using that Suc.prems lt by (auto simp: shape_def F1_def nth_list_update)
  have step: "scatter_positions ncomp rows i [a..<n] a F
                = scatter_positions ncomp rows i [Suc a..<n] (Suc a) F1"
    using lt by (simp add: upt_conv_Cons F1_def)
  have m: "m = n - Suc a" using Suc.hyps(2) by simp
  have IH: "shape nv n ns (scatter_positions ncomp rows i [Suc a..<n] (Suc a) F1)
       \<and> (\<forall>c < nv. \<forall>p < n. \<forall>k < ns.
            scatter_positions ncomp rows i [Suc a..<n] (Suc a) F1 ! c ! p ! k
              = (if k = i \<and> Suc a \<le> p then scatter_entry ncomp rows p c else F1 ! c ! p ! k))"
    using Suc.hyps(1)[OF m sh1] lt by simp
  show ?case
    unfolding step using IH e1 by (auto simp: Suc_le_eq le_less)
qed

lemma mask_indices_all:
  assumes "set eids \<subseteq> set el"
  shows "mask_indices (in1d eids el) = [0..<length eids]"
proof -
  have "filter (\<lambda>j. in1d eids el ! j) [0..<length eids] = [0..<length eids]"
    using assms by (intro filter_True) (auto simp: in1d_def)
  then show ?thesis by (simp add: mask_indices_def in1d_def)
qed

lemma select_filter:
  assumes "length data = length el" "map f data = map g el"
  shows "map f (map (\<lambda>j. data ! j) (filter (\<lambda>j. P (el ! j)) [0..<length el]))
           = map g (filter P el)"
  using assms
proof (induction data el rule: list_induct2)
  case Nil
  then show ?case by simp
next
  case (Cons r rs e es)
  have upt: "[0..<length (e # es)] = 0 # map Suc [0..<length es]"
    by (simp add: upt_conv_Cons map_Suc_upt del: upt_Suc)
  have IH: "map f (map (\<lambda>j. rs ! j) (filter (\<lambda>j. P (es ! j)) [0..<length es]))
              = map g (filter P es)"
    using Cons by simp
  have "map f (map (\<lambda>j. (r # rs) ! j) (filter (\<lambda>j. P ((e # es) ! j)) (map Suc [0..<length es])))
          = map f (map (\<lambda>j. rs ! j) (filter (\<lambda>j. P (es ! j)) [0..<length es]))"
    by (simp add: filter_map comp_def)
  then show ?case
    unfolding upt using IH Cons.prems by simp
qed

lemma mask_select_rows:
  assumes len: "length data = length el"
    and rows: "map Some data = map (obj_row d) el"
    and ord: "in_results_order eids el"
  shows "map Some (mask_select (in1d el eids) data) = map (obj_row d) eids"
proof -
  have "filter (\<lambda>j. in1d el eids ! j) [0..<length el]
          = filter (\<lambda>j. el ! j \<in> set eids) [0..<length el]"
    by (intro filter_cong) (auto simp: in1d_def)
  then have "mask_select (in1d el eids) data
          = map (\<lambda>j. data ! j) (filter (\<lambda>j. el ! j \<in> set eids) [0..<length el])"
    by (simp add: mask_select_def mask_indices_def in1d_def)
  then have "map Some (mask_select (in1d el eids) data)
          = map (obj_row d) (filter (\<lambda>e. e \<in> set eids) el)"
    using select_filter[OF len rows, of "\<lambda>e. e \<in> set eids"] by simp
  then show ?thesis using ord by (simp add: in_results_order_def)
qed

lemma in_results_order_subset: "in_results_order eids el \<Longrightarrow> set eids \<subseteq> set el"
  unfolding in_results_order_def by (metis filter_is_subset)

lemma same_forces_subcase_defined:
  assumes "same_forces_subcase d v" "e \<in> set (vf_element v)"
  shows "obj_row d e \<noteq> None"
proof -
  have "map Some (last (vf_data v)) = map (obj_row d) (vf_element v)"
    using assms(1) by (simp add: same_forces_subcase_def)
  then have "obj_row d e \<in> set (map Some (last (vf_data v)))"
    using assms(2) by simp
  then show ?thesis by auto
qed

lemma read_vec_subcase_entries:
  assumes sh: "shape 8 n ns F" and len: "length eids = n"
    and same: "same_forces_subcase d v" and el: "vf_element v = el"
    and ord: "in_results_order eids el"
  shows "\<exists>F'. read_vec_subcase (in1d el eids) (in1d eids el) v i F = Inr F' \<and> shape 8 n ns F'
          \<and> (\<forall>c < 8. \<forall>j < n. \<forall>k < ns.
                F' ! c ! j ! k = (if k = i then component d (eids ! j) c else F ! c ! j ! k))"
proof -
  let ?rows = "mask_select (in1d el eids) (last (vf_data v))"
  have nc: "vf_ncomp v = 8" and ne: "vf_data v \<noteq> []"
    and rw: "map Some (last (vf_data v)) = map (obj_row d) el"
    using same el by (simp_all add: same_forces_subcase_def)
  have ll: "length (last (vf_data v)) = length el"
    using rw by (metis length_map)
  have sel: "map Some ?rows = map (obj_row d) eids"
    using mask_select_rows[OF ll rw ord] .
  then have lr: "length ?rows = n" using len by (metis length_map)
  have rj: "?rows ! j = the (obj_row d (eids ! j))" if "j < n" for j
  proof -
    have "map Some ?rows ! j = map (obj_row d) eids ! j" using sel by simp
    then have "Some (?rows ! j) = obj_row d (eids ! j)" using that lr len by simp
    then show ?thesis by (metis option.sel)
  qed
  have ps: "mask_indices (in1d eids el) = [0..<n]"
    using mask_indices_all[OF in_results_order_subset[OF ord]] len by simp
  have lF: "length F = 8" using sh by (simp add: shape_def)
  have r: "read_vec_subcase (in1d el eids) (in1d eids el) v i F
             = Inr (scatter_positions 8 ?rows i [0..<n] 0 F)"
    using ne ll nc lr ps lF by (simp add: read_vec_subcase_def in1d_def Let_def)
  have sc: "shape 8 n ns (scatter_positions 8 ?rows i [0..<n] 0 F)
       \<and> (\<forall>c < 8. \<forall>p < n. \<forall>k < ns.
            scatter_positions 8 ?rows i [0..<n] 0 F ! c ! p ! k
              = (if k = i \<and> 0 \<le> p then scatter_entry 8 ?rows p c else F ! c ! p ! k))"
    using scatter_upt[OF sh, of 0 8 ?rows i] by simp
  have se: "scatter_entry 8 ?rows j c = component d (eids ! j) c" if "j < n" for j c
    using that lr rj[OF that] rj[of 0] by (auto simp: scatter_entry_def component_def)
  show ?thesis using r sc se by auto
qed


lemma read_obj_loop_entries:
  assumes "shape 8 n ns F" "length eids = n"
    and "\<forall>sc \<in> set scs. \<exists>d. fo sc = Some d \<and> (\<forall>e \<in> set eids. obj_row d e \<noteq> None)"
  shows "\<exists>F'. read_obj_loop eids fo scs i F = Inr F' \<and> shape 8 n ns F'
          \<and> (\<forall>c < 8. \<forall>j < n. \<forall>k < ns.
                F' ! c ! j ! k
                  = (if i \<le> k \<and> k < i + length scs
                     then component (the (fo (scs ! (k - i)))) (eids ! j) c
                     else F ! c ! j ! k))"
  using assms
proof (induction scs arbitrary: i F)
  case Nil
  then show ?case by auto
next
  case (Cons sc scs)
  obtain d where d: "fo sc = Some d" and df: "\<forall>e \<in> set eids. obj_row d e \<noteq> None"
    using Cons.prems(3) by auto
  obtain F1 where r1: "read_obj_subcase eids d i F = Inr F1" and s1: "shape 8 n ns F1"
    and e1: "\<forall>c < 8. \<forall>j < n. \<forall>k < ns.
                F1 ! c ! j ! k = (if k = i then component d (eids ! j) c else F ! c ! j ! k)"
    using read_obj_subcase_entries[OF Cons.prems(1,2) df, of i] by blast
  have rest: "\<forall>sc \<in> set scs. \<exists>d. fo sc = Some d \<and> (\<forall>e \<in> set eids. obj_row d e \<noteq> None)"
    using Cons.prems(3) by simp
  obtain F2 where r2: "read_obj_loop eids fo scs (Suc i) F1 = Inr F2" and s2: "shape 8 n ns F2"
    and e2: "\<forall>c < 8. \<forall>j < n. \<forall>k < ns.
                F2 ! c ! j ! k
                  = (if Suc i \<le> k \<and> k < Suc i + length scs
                     then component (the (fo (scs ! (k - Suc i)))) (eids ! j) c
                     else F1 ! c ! j ! k)"
    using Cons.IH[OF s1 Cons.prems(2) rest, of "Suc i"] by blast
  have r: "read_obj_loop eids fo (sc # scs) i F = Inr F2"
    using d r1 r2 by simp
  have e: "F2 ! c ! j ! k
             = (if i \<le> k \<and> k < i + length (sc # scs)
                then component (the (fo ((sc # scs) ! (k - i)))) (eids ! j) c
                else F ! c ! j ! k)"
    if "c < 8" "j < n" "k < ns" for c j k
  proof (cases "k = i")
    case True
    then show ?thesis using that e1 e2 d by simp
  next
    case False
    then have "(sc # scs) ! (k - i) = scs ! (k - Suc i)" if "i \<le> k"
      using that by (simp add: nth_Cons')
    then show ?thesis using that e1 e2 False by auto
  qed
  show ?case using r s2 e by blast
qed

lemma read_vec_loop_entries:
  assumes "shape 8 n ns F" "length eids = n" "in_results_order eids el"
    and "\<forall>sc \<in> set scs. \<exists>d v. fo sc = Some d \<and> fv sc = Some v \<and> same_forces_subcase d v
                                \<and> vf_element v = el"
  shows "\<exists>F'. read_vec_loop (in1d el eids) (in1d eids el) fv scs i F = Inr F' \<and> shape 8 n ns F'
          \<and> (\<forall>c < 8. \<forall>j < n. \<forall>k < ns.
                F' ! c ! j ! k
                  = (if i \<le> k \<and> k < i + length scs
                     then component (the (fo (scs ! (k - i)))) (eids ! j) c
                     else F ! c ! j ! k))"
  using assms
proof (induction scs arbitrary: i F)
  case Nil
  then show ?case by auto
next
  case (Cons sc scs)
  obtain d v where d: "fo sc = Some d" and v: "fv sc = Some v"
    and same: "same_forces_subcase d v" and el: "vf_element v = el"
    using Cons.prems(4) by auto
  obtain F1 where r1: "read_vec_subcase (in1d el eids) (in1d eids el) v i F = Inr F1"
    and s1: "shape 8 n ns F1"
    and e1: "\<forall>c < 8. \<forall>j < n. \<forall>k < ns.
                F1 ! c ! j ! k = (if k = i then component d (eids ! j) c else F ! c ! j ! k)"
    using read_vec_subcase_entries[OF Cons.prems(1,2) same el Cons.prems(3), of i] by blast
  have rest: "\<forall>sc \<in> set scs. \<exists>d v. fo sc = Some d \<and> fv sc = Some v
                \<and> same_forces_subcase d v \<and> vf_element v = el"
    using Cons.prems(4) by simp
  obtain F2 where r2: "read_vec_loop (in1d el eids) (in1d eids el) fv scs (Suc i) F1 = Inr F2"
    and s2: "shape 8 n ns F2"
    and e2: "\<forall>c < 8. \<forall>j < n. \<forall>k < ns.
                F2 ! c ! j ! k
                  = (if Suc i \<le> k \<and> k < Suc i + length scs
                     then component (the (fo (scs ! (k - Suc i)))) (eids ! j) c
                     else F1 ! c ! j ! k)"
    using Cons.IH[OF s1 Cons.prems(2,3) rest, of "Suc i"] by blast
  have r: "read_vec_loop (in1d el eids) (in1d eids el) fv (sc # scs) i F = Inr F2"
    using v r1 r2 by simp
  have e: "F2 ! c ! j ! k
             = (if i \<le> k \<and> k < i + length (sc # scs)
                then component (the (fo ((sc # scs) ! (k - i)))) (eids ! j) c
                else F ! c ! j ! k)"
    if "c < 8" "j < n" "k < ns" for c j k
  proof (cases "k = i")
    case True
    then show ?thesis using that e1 e2 d by simp
  next
    case False
    then have "(sc # scs) ! (k - i) = scs ! (k - Suc i)" if "i \<le> k"
      using that by (simp add: nth_Cons')
    then show ?thesis using that e1 e2 False by auto
  qed
  show ?case using r s2 e by blast
qed

text \<open>
  Where both layouts hold the same forces, every subcase lists the elements in the same
  order, and the element has at least two ids, all of them in the results and listed in
  the order of the results' rows, both layouts return the same array, of shape
  8 by number of ids by number of subcases.
\<close>

lemma read_forces_layouts_agree_in_order:
  assumes ne: "subcases \<noteq> []"
    and same: "same_forces subcases fo fv"
    and els: "same_elements subcases fv el"
    and ord: "in_results_order eids el"
    and two: "length eids \<ge> 2"
  shows "read_forces eids (Some (Op2Obj subcases fo)) = read_forces eids (Some (Op2Vec subcases fv))
       \<and> (\<exists>F. read_forces eids (Some (Op2Obj subcases fo)) = Inr F
               \<and> shape 8 (length eids) (length subcases) F)"
proof -
  obtain sc0 rest where sc: "subcases = sc0 # rest" using ne by (cases subcases) auto
  have all: "\<forall>sc \<in> set subcases. \<exists>d v. fo sc = Some d \<and> fv sc = Some v
                \<and> same_forces_subcase d v \<and> vf_element v = el"
  proof
    fix s assume m: "s \<in> set subcases"
    have a: "case (fo s, fv s) of (Some d, Some v) \<Rightarrow> same_forces_subcase d v | _ \<Rightarrow> False"
      using same m by (simp add: same_forces_def list_all_iff)
    have b: "case fv s of Some v \<Rightarrow> vf_element v = el | None \<Rightarrow> False"
      using els m by (simp add: same_elements_def list_all_iff)
    show "\<exists>d v. fo s = Some d \<and> fv s = Some v \<and> same_forces_subcase d v \<and> vf_element v = el"
      using a b by (cases "fo s"; cases "fv s") auto
  qed
  have sub: "set eids \<subseteq> set el" using ord by (rule in_results_order_subset)
  have objd: "\<forall>sc \<in> set subcases. \<exists>d. fo sc = Some d \<and> (\<forall>e \<in> set eids. obj_row d e \<noteq> None)"
  proof
    fix s assume "s \<in> set subcases"
    then obtain d v where "fo s = Some d" "same_forces_subcase d v" "vf_element v = el"
      using all by blast
    then show "\<exists>d. fo s = Some d \<and> (\<forall>e \<in> set eids. obj_row d e \<noteq> None)"
      using same_forces_subcase_defined sub by blast
  qed
  obtain d0 v0 where d0: "fo sc0 = Some d0" and v0: "fv sc0 = Some v0"
    and s0: "same_forces_subcase d0 v0" and e0: "vf_element v0 = el"
    using all sc by auto
  have nc: "vf_ncomp v0 = 8" using s0 by (simp add: same_forces_subcase_def)
  let ?Z = "zeros 8 (length eids) (length subcases) :: 'a forces"
  obtain Fo where ro: "read_obj_loop eids fo subcases 0 ?Z = Inr Fo"
    and so: "shape 8 (length eids) (length subcases) Fo"
    and eo: "\<forall>c < 8. \<forall>j < length eids. \<forall>k < length subcases.
                Fo ! c ! j ! k
                  = (if 0 \<le> k \<and> k < 0 + length subcases
                     then component (the (fo (subcases ! (k - 0)))) (eids ! j) c
                     else ?Z ! c ! j ! k)"
    using read_obj_loop_entries[OF shape_zeros refl objd, of 0] by blast
  obtain Fv where rv: "read_vec_loop (in1d el eids) (in1d eids el) fv subcases 0 ?Z = Inr Fv"
    and sv: "shape 8 (length eids) (length subcases) Fv"
    and ev: "\<forall>c < 8. \<forall>j < length eids. \<forall>k < length subcases.
                Fv ! c ! j ! k
                  = (if 0 \<le> k \<and> k < 0 + length subcases
                     then component (the (fo (subcases ! (k - 0)))) (eids ! j) c
                     else ?Z ! c ! j ! k)"
    using read_vec_loop_entries[OF shape_zeros refl ord all, of 0] by blast
  have eq: "Fo = Fv"
    using so sv by (rule shape_ext) (simp add: eo ev)
  have lo: "read_forces eids (Some (Op2Obj subcases fo)) = Inr Fo"
    using two d0 ro by (auto simp: read_forces_def sc)
  have lv: "read_forces eids (Some (Op2Vec subcases fv)) = Inr Fv"
    using v0 e0 nc rv sv by (simp add: read_forces_def sc shape_def)
  show ?thesis using lo lv eq so by simp
qed

text \<open>
  With the element ids in the order of the rows of the results both layouts give the same
  array; with a single element id the object layout fails where the vectorized one
  returns.
\<close>

lemma read_forces_sample_in_order:
  "read_forces [10, 11, 12] (Some (Op2Obj [1] sample_obj))
     = read_forces [10, 11, 12] (Some (Op2Vec [1] sample_vec))"
  by (simp add: forces_eval)

lemma read_forces_sample_single:
  "read_forces [10] (Some (Op2Obj [1] sample_obj))
     = Inl (TypeError ''zip argument #1 must support iteration'')"
  "read_forces [10] (Some (Op2Vec [1] sample_vec))
     = Inr [[[101]], [[102]], [[103]], [[104]], [[105]], [[106]], [[107]], [[108]]]"
  by (simp_all add: forces_eval)

text \<open>
  Claim C1, evaluated.  The sample sources hold the same forces for the elements 10, 11
  and 12 in one subcase.  For the element with the ids in the order 12, 10, 11 the object
  layout fills the positions with the forces of 12, 10 and 11, as the ids stand; the
  vectorized layout fills them with the forces of 10, 11 and 12, as the rows of the
  results stand.  The two arrays differ.
\<close>

theorem read_forces_layouts_differ:
  "same_forces [1] sample_obj sample_vec
   \<and> read_forces [12, 10, 11] (Some (Op2Obj [1] sample_obj))
     = Inr [[[121], [101], [111]], [[122], [102], [112]], [[123], [103], [113]],
            [[124], [104], [114]], [[125], [105], [115]], [[126], [106], [116]],
            [[127], [107], [117]], [[128], [108], [118]]]
   \<and> read_forces [12, 10, 11] (Some (Op2Vec [1] sample_vec))
     = Inr [[[101], [111], [121]], [[102], [112], [122]], [[103], [113], [123]],
            [[104], [114], [124]], [[105], [115], [125]], [[106], [116], [126]],
            [[107], [117], [127]], [[108], [118], [128]]]
   \<and> read_forces [12, 10, 11] (Some (Op2Obj [1] sample_obj))
     \<noteq> read_forces [12, 10, 11] (Some (Op2Vec [1] sample_vec))"
proof -
  have s: "same_forces [1] sample_obj sample_vec"
    by (simp add: same_forces_def sample_obj_def sample_vec_def same_forces_subcase_def
        obj_row_def)
  have o: "read_forces [12, 10, 11] (Some (Op2Obj [1] sample_obj))
     = Inr [[[121], [101], [111]], [[122], [102], [112]], [[123], [103], [113]],
            [[124], [104], [114]], [[125], [105], [115]], [[126], [106], [116]],
            [[127], [107], [117]], [[128], [108], [118]]]"
    by (simp add: forces_eval)
  have v: "read_forces [12, 10, 11] (Some (Op2Vec [1] sample_vec))
     = Inr [[[101], [111], [121]], [[102], [112], [122]], [[103], [113], [123]],
            [[104], [114], [124]], [[105], [115], [125]], [[106], [116], [126]],
            [[107], [117], [127]], [[108], [118], [128]]]"
    by (simp add: forces_eval)
  show ?thesis using s o v by simp
qed

end
